theory Spec2Isabelle
  imports Complex_Main "HOL-Library.Char_ord" "HOL-Library.List_Lexorder"
begin

section \<open>Data model\<close>

text \<open>
  The relational schema has the tables MonthlyData, IncomeSource and ExpenseCategory; the
  children reference their month by \<open>monthlyDataId\<close> and every query of the routes
  loads a month together with its children (\<open>include\<close>). The ledger is therefore kept
  in nested form: a list of month rows in insertion order, each holding its own income and
  expense rows in insertion order, together with the next values of the two SERIAL
  sequences the routes below draw from.

  A \<open>Decimal\<close> is modelled as an exact rational. The routes of \<open>yearly.ts\<close> convert
  every amount with \<open>parseFloat\<close>; the rounding of binary floating point is outside this
  model, which computes with the exact values. The amount columns are DECIMAL(10,2): what
  an insert of a new amount stores is given by \<open>column_10_2\<close> below.
  The timestamps \<open>createdAt\<close> and \<open>updatedAt\<close> are read by no route and are omitted.
\<close>

type_synonym decimal = rat

record IncomeSource =
  inc_id :: nat
  inc_name :: string
  inc_expected :: decimal
  inc_actual :: decimal
  inc_monthlyDataId :: nat

record ExpenseCategory =
  exp_id :: nat
  exp_name :: string
  exp_budgeted :: decimal
  exp_actual :: decimal
  exp_isPaid :: bool
  exp_showPaidStatus :: bool
  exp_monthlyDataId :: nat

record MonthlyData =
  md_id :: nat
  md_month :: string
  incomeSources :: "IncomeSource list"
  expenseCategories :: "ExpenseCategory list"

record ledger =
  months :: "MonthlyData list"
  nextMonthId :: nat
  nextExpenseId :: nat

text \<open>
  A handler answers either with \<open>res.json(x)\<close> (status 200) or with
  \<open>res.status(c).json({ error: msg })\<close>.
\<close>

datatype 'a response = Json 'a | Failure nat string

fun status :: "'a response \<Rightarrow> nat" where
  "status (Json x) = 200"
| "status (Failure c msg) = c"

section \<open>Month keys\<close>

text \<open>
  \<open>\d\<close> of a JavaScript regular expression without the unicode flag is the class
  \<open>[0-9]\<close>, and \<open>$\<close> without the multiline flag matches at the end of the input only.
\<close>

definition is_digit :: "char \<Rightarrow> bool" where
  "is_digit c = (CHR ''0'' \<le> c \<and> c \<le> CHR ''9'')"

text \<open>The test \<open>/^\d{4}-\d{2}$/.test(month)\<close>.\<close>

definition month_format :: "string \<Rightarrow> bool" where
  "month_format s =
     (length s = 7 \<and> list_all is_digit (take 4 s) \<and> s ! 4 = CHR ''-'' \<and>
      list_all is_digit (drop 5 s))"

text \<open>The test \<open>/^\d{4}$/.test(year)\<close>.\<close>

definition year_format :: "string \<Rightarrow> bool" where
  "year_format s = (length s = 4 \<and> list_all is_digit s)"

section \<open>Storage operations on months\<close>

text \<open>\<open>prisma.monthlyData.findUnique({ where: { month } })\<close>.\<close>

definition findUnique :: "ledger \<Rightarrow> string \<Rightarrow> MonthlyData option" where
  "findUnique db m = find (\<lambda>r. md_month r = m) (months db)"

text \<open>
  \<open>prisma.monthlyData.findFirst({ where: { month: { lt: month } }, orderBy: { month: "desc" } })\<close>:
  the rows with a smaller key, in descending key order, and of these the first.
\<close>

definition findFirst_lt :: "ledger \<Rightarrow> string \<Rightarrow> MonthlyData option" where
  "findFirst_lt db m =
     (case rev (sort_key md_month (filter (\<lambda>r. md_month r < m) (months db))) of
        [] \<Rightarrow> None
      | r # rs \<Rightarrow> Some r)"

text \<open>The data of one nested \<open>expenseCategories: { create: ... }\<close> entry.\<close>

record CategoryData =
  cd_name :: string
  cd_budgeted :: decimal
  cd_actual :: decimal
  cd_isPaid :: bool
  cd_showPaidStatus :: bool

definition expense_row :: "nat \<Rightarrow> nat \<Rightarrow> CategoryData \<Rightarrow> ExpenseCategory" where
  "expense_row mid i c =
     \<lparr>exp_id = i, exp_name = cd_name c, exp_budgeted = cd_budgeted c,
      exp_actual = cd_actual c, exp_isPaid = cd_isPaid c,
      exp_showPaidStatus = cd_showPaidStatus c, exp_monthlyDataId = mid\<rparr>"

text \<open>
  \<open>prisma.monthlyData.create\<close> with nested category creation. The column \<open>month\<close>
  carries a unique index, so the insert is refused (\<open>None\<close>: the call throws) when the key
  is taken. Otherwise the row and its categories take the next ids of their sequences. The
  amounts the resolver passes here are 0 or were read from the same columns, and the columns
  store such amounts as they are.
\<close>

definition create_month :: "ledger \<Rightarrow> string \<Rightarrow> CategoryData list \<Rightarrow> (MonthlyData \<times> ledger) option" where
  "create_month db m cats =
     (if list_ex (\<lambda>r. md_month r = m) (months db) then None
      else
        let mid = nextMonthId db;
            eid = nextExpenseId db;
            rows = map (\<lambda>(i, c). expense_row mid i c) (zip [eid ..< eid + length cats] cats);
            row = \<lparr>md_id = mid, md_month = m, incomeSources = [], expenseCategories = rows\<rparr>
        in Some (row, db\<lparr>months := months db @ [row], nextMonthId := mid + 1,
                         nextExpenseId := eid + length cats\<rparr>))"

text \<open>
  A DECIMAL(10,2) column, as the migration declares \<open>budgeted\<close> and \<open>actual\<close>: the value is
  rounded to two fractional digits, halves away from zero, and the insert is refused with a
  numeric overflow (\<open>None\<close>) unless the rounded value is below \<open>10^8\<close> in absolute value.
\<close>

definition round_half_away :: "decimal \<Rightarrow> int" where
  "round_half_away x = (if 0 \<le> x then \<lfloor>x + 1 / 2\<rfloor> else - \<lfloor>- x + 1 / 2\<rfloor>)"

definition column_10_2 :: "decimal \<Rightarrow> decimal option" where
  "column_10_2 d =
     (let r = of_int (round_half_away (d * 100)) / 100
      in if \<bar>r\<bar> < 10 ^ 8 then Some r else None)"

text \<open>
  \<open>prisma.expenseCategory.create\<close> for the month with id \<open>mid\<close>: both amounts pass
  through their columns, and the new row, holding the stored amounts, is added to the
  categories of that month. When a column refuses its amount the call throws (\<open>None\<close>) and
  no row is written. The source does not determine whether the database has drawn an id from
  the sequence by then; the ledger is returned as it was.
\<close>

definition create_expense :: "ledger \<Rightarrow> nat \<Rightarrow> CategoryData \<Rightarrow> (ExpenseCategory \<times> ledger) option" where
  "create_expense db mid c =
     (case column_10_2 (cd_budgeted c) of
        None \<Rightarrow> None
      | Some stored_budgeted \<Rightarrow>
          (case column_10_2 (cd_actual c) of
             None \<Rightarrow> None
           | Some stored_actual \<Rightarrow>
               (let row = expense_row mid (nextExpenseId db)
                            (c\<lparr>cd_budgeted := stored_budgeted, cd_actual := stored_actual\<rparr>)
                in Some (row,
                     db\<lparr>months := map (\<lambda>r. if md_id r = mid
                                          then r\<lparr>expenseCategories := expenseCategories r @ [row]\<rparr>
                                          else r) (months db),
                        nextExpenseId := nextExpenseId db + 1\<rparr>))))"

section \<open>Month resolver: GET /api/monthly/:month\<close>

text \<open>\<open>DEFAULT_CATEGORIES\<close>: name, budgeted, showPaidStatus.\<close>

definition DEFAULT_CATEGORIES :: "(string \<times> decimal \<times> bool) list" where
  "DEFAULT_CATEGORIES =
     [(''Rent'', 0, True),
      (''Groceries'', 0, False),
      (''Car Insurance'', 0, True),
      (''Clothes'', 0, False),
      (''Other'', 0, False)]"

definition clone_category :: "ExpenseCategory \<Rightarrow> CategoryData" where
  "clone_category cat =
     \<lparr>cd_name = exp_name cat, cd_budgeted = exp_budgeted cat, cd_actual = 0,
      cd_isPaid = False, cd_showPaidStatus = exp_showPaidStatus cat\<rparr>"

definition default_category :: "string \<times> decimal \<times> bool \<Rightarrow> CategoryData" where
  "default_category cat =
     (case cat of (n, b, s) \<Rightarrow>
        \<lparr>cd_name = n, cd_budgeted = b, cd_actual = 0, cd_isPaid = False,
         cd_showPaidStatus = s\<rparr>)"

text \<open>
  \<open>previousMonth?.expenseCategories.length ? clone : defaults\<close>: the previous month's
  categories are cloned when there is a previous month and it has at least one category.
\<close>

definition categoriesToClone :: "MonthlyData option \<Rightarrow> CategoryData list" where
  "categoriesToClone previousMonth =
     (case previousMonth of
        None \<Rightarrow> map default_category DEFAULT_CATEGORIES
      | Some p \<Rightarrow>
          if length (expenseCategories p) \<noteq> 0
          then map clone_category (expenseCategories p)
          else map default_category DEFAULT_CATEGORIES)"

definition get_month :: "ledger \<Rightarrow> string \<Rightarrow> MonthlyData response \<times> ledger" where
  "get_month db month =
     (if \<not> month_format month
      then (Failure 400 ''Invalid month format. Use YYYY-MM'', db)
      else
        case findUnique db month of
          Some monthlyData \<Rightarrow> (Json monthlyData, db)
        | None \<Rightarrow>
            (case create_month db month (categoriesToClone (findFirst_lt db month)) of
               None \<Rightarrow> (Failure 500 ''Failed to fetch month data'', db)
             | Some (monthlyData, db') \<Rightarrow> (Json monthlyData, db')))"

section \<open>Adding an expense category: POST /api/monthly/:month/expense\<close>

text \<open>
  A numeric field of a request body, as \<open>new Decimal(x)\<close> sees it: the field is missing or
  falsy (\<open>undefined\<close>, \<open>null\<close>, \<open>0\<close>, the empty string), it denotes a finite decimal
  number, or it is a value that \<open>new Decimal\<close> rejects by throwing.
\<close>

datatype json_number = Absent | Numeric decimal | Malformed

text \<open>\<open>new Decimal(x || 0)\<close>; \<open>None\<close> when the constructor throws.\<close>

fun decimal_or_zero :: "json_number \<Rightarrow> decimal option" where
  "decimal_or_zero Absent = Some 0"
| "decimal_or_zero (Numeric d) = Some d"
| "decimal_or_zero Malformed = None"

text \<open>
  The body of an expense request. The POST handler destructures \<open>name\<close> and \<open>budgeted\<close>
  only; the other three fields are those the PATCH handler reads. A missing \<open>name\<close> is
  \<open>None\<close>; values of other JSON types are not modelled.
\<close>

record expense_body =
  b_name :: "string option"
  b_budgeted :: json_number
  b_actual :: json_number
  b_isPaid :: "bool option"
  b_showPaidStatus :: "bool option"

text \<open>\<open>name || dflt\<close> on an optional string: the empty string is falsy.\<close>

fun string_or :: "string option \<Rightarrow> string \<Rightarrow> string" where
  "string_or None dflt = dflt"
| "string_or (Some s) dflt = (if s = [] then dflt else s)"

definition post_expense :: "ledger \<Rightarrow> string \<Rightarrow> expense_body \<Rightarrow> ExpenseCategory response \<times> ledger" where
  "post_expense db month body =
     (case findUnique db month of
        None \<Rightarrow> (Failure 404 ''Month not found'', db)
      | Some monthlyData \<Rightarrow>
          (case decimal_or_zero (b_budgeted body) of
             None \<Rightarrow> (Failure 500 ''Failed to add expense'', db)
           | Some budgeted \<Rightarrow>
               (case create_expense db (md_id monthlyData)
                       \<lparr>cd_name = string_or (b_name body) ''New Category'',
                        cd_budgeted = budgeted, cd_actual = 0, cd_isPaid = False,
                        cd_showPaidStatus = False\<rparr> of
                  None \<Rightarrow> (Failure 500 ''Failed to add expense'', db)
                | Some (expense, db') \<Rightarrow> (Json expense, db'))))"

section \<open>Aggregator: GET /api/yearly/:year\<close>

record MonthlyBreakdownItem =
  month :: string
  expectedIncome :: decimal
  actualIncome :: decimal
  effectiveIncome :: decimal
  budgeted :: decimal
  actualExpenses :: decimal
  savings :: decimal

record CategoryBreakdownItem =
  cat_name :: string
  cat_budgeted :: decimal
  cat_actual :: decimal
  cat_variance :: decimal

record Totals =
  tot_expectedIncome :: decimal
  tot_actualIncome :: decimal
  tot_effectiveIncome :: decimal
  tot_budgeted :: decimal
  tot_actualExpenses :: decimal
  tot_savings :: decimal

record Averages =
  monthlyIncome :: decimal
  monthlyExpenses :: decimal
  monthlySavings :: decimal

record Highlights =
  bestMonth :: "MonthlyBreakdownItem option"
  worstMonth :: "MonthlyBreakdownItem option"
  highestSpendingMonth :: "MonthlyBreakdownItem option"
  topSpendingCategory :: "CategoryBreakdownItem option"

record YearlySummary =
  year :: string
  monthCount :: nat
  totals :: Totals
  averages :: Averages
  savingsRate :: decimal
  monthlyBreakdown :: "MonthlyBreakdownItem list"
  categoryBreakdown :: "CategoryBreakdownItem list"
  highlights :: Highlights

text \<open>
  \<open>prisma.monthlyData.findMany({ where: { month: { startsWith: year } }, orderBy: { month: "asc" } })\<close>.
\<close>

definition findMany_year :: "ledger \<Rightarrow> string \<Rightarrow> MonthlyData list" where
  "findMany_year db y =
     sort_key md_month (filter (\<lambda>r. take (length y) (md_month r) = y) (months db))"

text \<open>The four \<open>reduce\<close> calls of the loop body.\<close>

definition monthExpectedIncome :: "MonthlyData \<Rightarrow> decimal" where
  "monthExpectedIncome m = foldl (\<lambda>sum inc. sum + inc_expected inc) 0 (incomeSources m)"

definition monthActualIncome :: "MonthlyData \<Rightarrow> decimal" where
  "monthActualIncome m = foldl (\<lambda>sum inc. sum + inc_actual inc) 0 (incomeSources m)"

definition monthBudgeted :: "MonthlyData \<Rightarrow> decimal" where
  "monthBudgeted m = foldl (\<lambda>sum ex. sum + exp_budgeted ex) 0 (expenseCategories m)"

definition monthActualExpenses :: "MonthlyData \<Rightarrow> decimal" where
  "monthActualExpenses m = foldl (\<lambda>sum ex. sum + exp_actual ex) 0 (expenseCategories m)"

text \<open>The item pushed to \<open>monthlyBreakdown\<close> for one month.\<close>

definition breakdownItem :: "MonthlyData \<Rightarrow> MonthlyBreakdownItem" where
  "breakdownItem m =
     (let effective = max (monthExpectedIncome m) (monthActualIncome m)
      in \<lparr>month = md_month m,
          expectedIncome = monthExpectedIncome m,
          actualIncome = monthActualIncome m,
          effectiveIncome = effective,
          budgeted = monthBudgeted m,
          actualExpenses = monthActualExpenses m,
          savings = effective - monthActualExpenses m\<rparr>)"

text \<open>
  \<open>categoryTotals\<close> is an object used as a dictionary from category name to the pair
  (budgeted, actual). It is modelled as an association list in insertion order, which is the
  order \<open>Object.entries\<close> enumerates string keys in. Category names that are canonical array
  indices (which \<open>Object.entries\<close> lists first) or names of members of \<open>Object.prototype\<close>
  (for which the lookup is truthy although the key is absent) are outside this model.
\<close>

type_synonym categoryTotals = "(string \<times> decimal \<times> decimal) list"

definition addCategory :: "categoryTotals \<Rightarrow> ExpenseCategory \<Rightarrow> categoryTotals" where
  "addCategory ct ex =
     (let ct1 = (if map_of ct (exp_name ex) = None then ct @ [(exp_name ex, (0, 0))] else ct)
      in map (\<lambda>(n, b, a). if n = exp_name ex
                           then (n, b + exp_budgeted ex, a + exp_actual ex)
                           else (n, b, a)) ct1)"

text \<open>The variables the loop over the months updates.\<close>

record accum =
  totalExpectedIncome :: decimal
  totalActualIncome :: decimal
  totalBudgeted :: decimal
  totalActualExpenses :: decimal
  acc_monthlyBreakdown :: "MonthlyBreakdownItem list"
  acc_categoryTotals :: categoryTotals

definition accum_init :: accum where
  "accum_init =
     \<lparr>totalExpectedIncome = 0, totalActualIncome = 0, totalBudgeted = 0,
      totalActualExpenses = 0, acc_monthlyBreakdown = [], acc_categoryTotals = []\<rparr>"

text \<open>One iteration of \<open>for (const month of months)\<close>.\<close>

definition month_step :: "accum \<Rightarrow> MonthlyData \<Rightarrow> accum" where
  "month_step acc m =
     \<lparr>totalExpectedIncome = totalExpectedIncome acc + monthExpectedIncome m,
      totalActualIncome = totalActualIncome acc + monthActualIncome m,
      totalBudgeted = totalBudgeted acc + monthBudgeted m,
      totalActualExpenses = totalActualExpenses acc + monthActualExpenses m,
      acc_monthlyBreakdown = acc_monthlyBreakdown acc @ [breakdownItem m],
      acc_categoryTotals = foldl addCategory (acc_categoryTotals acc) (expenseCategories m)\<rparr>"

text \<open>
  \<open>Array.prototype.sort\<close> with a comparator: the sort is stable, and an element \<open>x\<close> stays
  before \<open>y\<close> unless the comparator puts it after (\<open>cmp x y > 0\<close>). For a consistent
  comparator every stable sort returns the same list; it is computed here by insertion from
  the right.
\<close>

fun insert_by :: "('a \<Rightarrow> 'a \<Rightarrow> decimal) \<Rightarrow> 'a \<Rightarrow> 'a list \<Rightarrow> 'a list" where
  "insert_by cmp x [] = [x]"
| "insert_by cmp x (y # ys) = (if cmp x y \<le> 0 then x # y # ys else y # insert_by cmp x ys)"

definition js_sort :: "('a \<Rightarrow> 'a \<Rightarrow> decimal) \<Rightarrow> 'a list \<Rightarrow> 'a list" where
  "js_sort cmp xs = foldr (insert_by cmp) xs []"

text \<open>\<open>xs[0] || null\<close> and \<open>xs[xs.length - 1] || null\<close> on an array of objects.\<close>

fun first_or_null :: "'a list \<Rightarrow> 'a option" where
  "first_or_null [] = None"
| "first_or_null (x # xs) = Some x"

fun last_or_null :: "'a list \<Rightarrow> 'a option" where
  "last_or_null [] = None"
| "last_or_null (x # xs) = Some (last (x # xs))"

definition categoryItem :: "string \<times> decimal \<times> decimal \<Rightarrow> CategoryBreakdownItem" where
  "categoryItem e =
     (case e of (n, b, a) \<Rightarrow>
        \<lparr>cat_name = n, cat_budgeted = b, cat_actual = a, cat_variance = b - a\<rparr>)"

text \<open>The body of the handler after the query: from the months found to the report.\<close>

definition summarize :: "string \<Rightarrow> MonthlyData list \<Rightarrow> YearlySummary" where
  "summarize y ms =
     (let acc = foldl month_step accum_init ms;
          categoryBreakdown =
            js_sort (\<lambda>a b. cat_actual b - cat_actual a) (map categoryItem (acc_categoryTotals acc));
          count = (if length ms \<noteq> 0 then length ms else 1);
          totalEffectiveIncome = max (totalExpectedIncome acc) (totalActualIncome acc);
          totalSavings = totalEffectiveIncome - totalActualExpenses acc;
          rate = (if totalEffectiveIncome > 0
                  then (totalSavings / totalEffectiveIncome) * 100 else 0);
          avgMonthlyExpenses = totalActualExpenses acc / of_nat count;
          avgMonthlyIncome = totalEffectiveIncome / of_nat count;
          avgMonthlySavings = totalSavings / of_nat count;
          sortedBySavings = js_sort (\<lambda>a b. savings b - savings a) (acc_monthlyBreakdown acc);
          sortedByExpenses =
            js_sort (\<lambda>a b. actualExpenses b - actualExpenses a) (acc_monthlyBreakdown acc)
      in \<lparr>year = y,
          monthCount = length ms,
          totals = \<lparr>tot_expectedIncome = totalExpectedIncome acc,
                    tot_actualIncome = totalActualIncome acc,
                    tot_effectiveIncome = totalEffectiveIncome,
                    tot_budgeted = totalBudgeted acc,
                    tot_actualExpenses = totalActualExpenses acc,
                    tot_savings = totalSavings\<rparr>,
          averages = \<lparr>monthlyIncome = avgMonthlyIncome,
                      monthlyExpenses = avgMonthlyExpenses,
                      monthlySavings = avgMonthlySavings\<rparr>,
          savingsRate = rate,
          monthlyBreakdown = acc_monthlyBreakdown acc,
          categoryBreakdown = categoryBreakdown,
          highlights = \<lparr>bestMonth = first_or_null sortedBySavings,
                        worstMonth = last_or_null sortedBySavings,
                        highestSpendingMonth = first_or_null sortedByExpenses,
                        topSpendingCategory = first_or_null categoryBreakdown\<rparr>\<rparr>)"

definition get_year :: "ledger \<Rightarrow> string \<Rightarrow> YearlySummary response" where
  "get_year db y =
     (if \<not> year_format y then Failure 400 ''Invalid year format. Use YYYY''
      else Json (summarize y (findMany_year db y)))"

section \<open>Authentication: POST /api/auth/login and /api/auth/change-credentials\<close>

record User =
  user_id :: nat
  username :: string
  password :: string

text \<open>
  The session data of \<open>express-session\<close>: both fields are unset until a login stores them.
\<close>

record session =
  userId :: "nat option"
  sess_username :: "string option"

text \<open>
  A string field of a JSON body: \<open>None\<close> when missing. Truthiness is that of a JavaScript
  string; values of other JSON types are not modelled.
\<close>

fun truthy :: "string option \<Rightarrow> bool" where
  "truthy None = False"
| "truthy (Some s) = (s \<noteq> [])"

text \<open>\<open>String(x)\<close> on a field that passed the truthiness test.\<close>

fun String :: "string option \<Rightarrow> string" where
  "String None = ''undefined''"
| "String (Some s) = s"

record login_body =
  lb_username :: "string option"
  lb_password :: "string option"

text \<open>The body of a successful login or credential change: \<open>{ success: true, username }\<close>.\<close>

datatype auth_ok = Success string

text \<open>\<open>prisma.user.findUnique\<close> by username and by id.\<close>

definition findUser_username :: "User list \<Rightarrow> string \<Rightarrow> User option" where
  "findUser_username us n = find (\<lambda>u. username u = n) us"

definition findUser_id :: "User list \<Rightarrow> nat \<Rightarrow> User option" where
  "findUser_id us i = find (\<lambda>u. user_id u = i) us"

text \<open>
  The login handler. \<open>bcrypt.compare\<close> is a parameter: \<open>compare pw h\<close> tells whether the
  password \<open>pw\<close> matches the stored hash \<open>h\<close>.
\<close>

definition post_login ::
  "(string \<Rightarrow> string \<Rightarrow> bool) \<Rightarrow> User list \<Rightarrow> session \<Rightarrow> login_body \<Rightarrow> auth_ok response \<times> session" where
  "post_login compare us sess body =
     (if \<not> truthy (lb_username body) \<or> \<not> truthy (lb_password body)
      then (Failure 400 ''Username and password required'', sess)
      else
        case findUser_username us (String (lb_username body)) of
          None \<Rightarrow> (Failure 401 ''Invalid credentials'', sess)
        | Some user \<Rightarrow>
            if \<not> compare (String (lb_password body)) (password user)
            then (Failure 401 ''Invalid credentials'', sess)
            else (Json (Success (username user)),
                  sess\<lparr>userId := Some (user_id user), sess_username := Some (username user)\<rparr>))"

record credentials_body =
  currentPassword :: "string option"
  newUsername :: "string option"
  newPassword :: "string option"

text \<open>
  \<open>req.session.userId\<close> as a condition: unset and \<open>0\<close> are falsy. The result is the
  user id the handler goes on with, when there is one.
\<close>

definition session_user :: "session \<Rightarrow> nat option" where
  "session_user sess =
     (case userId sess of None \<Rightarrow> None | Some i \<Rightarrow> if i = 0 then None else Some i)"

text \<open>
  \<open>prisma.user.update({ where: { id }, data })\<close> with the optional fields of \<open>updateData\<close>.
  The column \<open>username\<close> is unique: the update is refused (\<open>None\<close>: the call throws) when
  another row holds the new username, and also when no row has the id.
\<close>

definition update_user ::
  "User list \<Rightarrow> nat \<Rightarrow> string option \<Rightarrow> string option \<Rightarrow> (User \<times> User list) option" where
  "update_user us i new_name new_hash =
     (case findUser_id us i of
        None \<Rightarrow> None
      | Some u \<Rightarrow>
          let u' = u\<lparr>username := (case new_name of None \<Rightarrow> username u | Some n \<Rightarrow> n),
                     password := (case new_hash of None \<Rightarrow> password u | Some h \<Rightarrow> h)\<rparr>
          in if list_ex (\<lambda>v. user_id v \<noteq> i \<and> username v = username u') us then None
             else Some (u', map (\<lambda>v. if user_id v = i then u' else v) us))"

text \<open>
  The credential-change handler. \<open>bcrypt.compare\<close> and \<open>bcrypt.hash\<close> (with the fixed
  number of salt rounds) are parameters.
\<close>

definition post_change_credentials ::
  "(string \<Rightarrow> string \<Rightarrow> bool) \<Rightarrow> (string \<Rightarrow> string) \<Rightarrow> User list \<Rightarrow> session \<Rightarrow> credentials_body
     \<Rightarrow> auth_ok response \<times> User list \<times> session" where
  "post_change_credentials compare hash us sess body =
     (case session_user sess of
        None \<Rightarrow> (Failure 401 ''Not authenticated'', us, sess)
      | Some uid \<Rightarrow>
         (if \<not> truthy (currentPassword body)
          then (Failure 400 ''Current password required'', us, sess)
          else if \<not> truthy (newUsername body) \<and> \<not> truthy (newPassword body)
          then (Failure 400 ''New username or password required'', us, sess)
          else
            (case findUser_id us uid of
               None \<Rightarrow> (Failure 401 ''User not found'', us, sess)
             | Some user \<Rightarrow>
                (if \<not> compare (String (currentPassword body)) (password user)
                 then (Failure 401 ''Current password is incorrect'', us, sess)
                 else
                   let existing = (if truthy (newUsername body)
                                   then findUser_username us (String (newUsername body))
                                   else None)
                   in if truthy (newUsername body) \<and>
                         (case existing of None \<Rightarrow> False
                          | Some e \<Rightarrow> user_id e \<noteq> user_id user)
                      then (Failure 400 ''Username already taken'', us, sess)
                      else if truthy (newPassword body) \<and>
                              length (String (newPassword body)) < 6
                      then (Failure 400 ''Password must be at least 6 characters'', us, sess)
                      else
                        let upd_name = (if truthy (newUsername body)
                                        then Some (String (newUsername body)) else None);
                            upd_hash = (if truthy (newPassword body)
                                        then Some (hash (String (newPassword body))) else None)
                        in (case update_user us (user_id user) upd_name upd_hash of
                              None \<Rightarrow> (Failure 500 ''Internal server error'', us, sess)
                            | Some (updatedUser, us') \<Rightarrow>
                                (Json (Success (username updatedUser)), us',
                                 if truthy (newUsername body)
                                 then sess\<lparr>sess_username := Some (username updatedUser)\<rparr>
                                 else sess))))))"

section \<open>Reference notions for the highlights\<close>

text \<open>
  The element of a list that a selection by a key picks: the first element whose key is
  maximal, the first element whose key is minimal, and the last element whose key is minimal.
  \<open>first_with_min\<close> is the selection the specification words for the worst month
  (first occurrence wins); \<open>last_with_min\<close> is the one the handler computes.
\<close>

definition first_with_max :: "('a \<Rightarrow> decimal) \<Rightarrow> 'a list \<Rightarrow> 'a option" where
  "first_with_max key xs = find (\<lambda>x. list_all (\<lambda>y. key y \<le> key x) xs) xs"

definition first_with_min :: "('a \<Rightarrow> decimal) \<Rightarrow> 'a list \<Rightarrow> 'a option" where
  "first_with_min key xs = find (\<lambda>x. list_all (\<lambda>y. key x \<le> key y) xs) xs"

definition last_with_min :: "('a \<Rightarrow> decimal) \<Rightarrow> 'a list \<Rightarrow> 'a option" where
  "last_with_min key xs = find (\<lambda>x. list_all (\<lambda>y. key x \<le> key y) xs) (rev xs)"

section \<open>Example ledgers\<close>

text \<open>
  Two months of 2025, stored out of order, with equal savings of 600 each: January has the
  higher actual income, February the higher expected income.
\<close>

definition income_row :: "nat \<Rightarrow> nat \<Rightarrow> string \<Rightarrow> decimal \<Rightarrow> decimal \<Rightarrow> IncomeSource" where
  "income_row mid i n e a =
     \<lparr>inc_id = i, inc_name = n, inc_expected = e, inc_actual = a, inc_monthlyDataId = mid\<rparr>"

definition ex_jan :: MonthlyData where
  "ex_jan = \<lparr>md_id = 1, md_month = ''2025-01'',
     incomeSources = [income_row 1 1 ''Salary'' 1000 1200],
     expenseCategories =
       [\<lparr>exp_id = 1, exp_name = ''Rent'', exp_budgeted = 500, exp_actual = 500,
         exp_isPaid = True, exp_showPaidStatus = True, exp_monthlyDataId = 1\<rparr>,
        \<lparr>exp_id = 2, exp_name = ''Groceries'', exp_budgeted = 200, exp_actual = 100,
         exp_isPaid = False, exp_showPaidStatus = False, exp_monthlyDataId = 1\<rparr>]\<rparr>"

definition ex_feb :: MonthlyData where
  "ex_feb = \<lparr>md_id = 2, md_month = ''2025-02'',
     incomeSources = [income_row 2 2 ''Salary'' 1200 1000],
     expenseCategories =
       [\<lparr>exp_id = 3, exp_name = ''Rent'', exp_budgeted = 500, exp_actual = 500,
         exp_isPaid = False, exp_showPaidStatus = True, exp_monthlyDataId = 2\<rparr>,
        \<lparr>exp_id = 4, exp_name = ''Groceries'', exp_budgeted = 200, exp_actual = 100,
         exp_isPaid = False, exp_showPaidStatus = False, exp_monthlyDataId = 2\<rparr>]\<rparr>"

definition ex_ledger :: ledger where
  "ex_ledger = \<lparr>months = [ex_feb, ex_jan], nextMonthId = 3, nextExpenseId = 5\<rparr>"

text \<open>A month whose only income row carries negative amounts.\<close>

definition neg_jan :: MonthlyData where
  "neg_jan = \<lparr>md_id = 1, md_month = ''2025-01'',
     incomeSources = [income_row 1 1 ''Refund owed'' (-100) (-100)],
     expenseCategories =
       [\<lparr>exp_id = 1, exp_name = ''Other'', exp_budgeted = 50, exp_actual = 50,
         exp_isPaid = False, exp_showPaidStatus = False, exp_monthlyDataId = 1\<rparr>]\<rparr>"

definition neg_ledger :: ledger where
  "neg_ledger = \<lparr>months = [neg_jan], nextMonthId = 2, nextExpenseId = 2\<rparr>"

section \<open>Reference notions for the month resolver\<close>

text \<open>
  The unique index on \<open>MonthlyData.month\<close> as a property of a ledger, and the month the
  resolver clones from: the stored month with the greatest key strictly below the requested
  one.
\<close>

definition unique_months :: "ledger \<Rightarrow> bool" where
  "unique_months db = distinct (map md_month (months db))"

definition nearest_earlier :: "ledger \<Rightarrow> string \<Rightarrow> MonthlyData \<Rightarrow> bool" where
  "nearest_earlier db m p =
     (p \<in> set (months db) \<and> md_month p < m \<and>
      (\<forall>r\<in>set (months db). md_month r < m \<longrightarrow> md_month r \<le> md_month p))"

text \<open>
  The part of a category that cloning keeps (name, budgeted, showPaidStatus), and all of its
  data fields (name, budgeted, actual, isPaid, showPaidStatus).
\<close>

definition category_shape :: "ExpenseCategory \<Rightarrow> string \<times> decimal \<times> bool" where
  "category_shape c = (exp_name c, exp_budgeted c, exp_showPaidStatus c)"

definition category_fields :: "ExpenseCategory \<Rightarrow> string \<times> decimal \<times> decimal \<times> bool \<times> bool" where
  "category_fields c =
     (exp_name c, exp_budgeted c, exp_actual c, exp_isPaid c, exp_showPaidStatus c)"

section \<open>Example ledgers for the month resolver\<close>

text \<open>
  January 2025 with Rent 1200/1200 (paid) and Groceries 400/380; the same ledger with a
  February that has the single category Utilities, and the March that a first read of
  \<open>2025-03\<close> creates there; the empty ledger; a ledger whose only month has no category.
\<close>

definition spec_jan :: MonthlyData where
  "spec_jan = \<lparr>md_id = 1, md_month = ''2025-01'',
     incomeSources = [income_row 1 1 ''Salary'' 3000 3000],
     expenseCategories =
       [\<lparr>exp_id = 1, exp_name = ''Rent'', exp_budgeted = 1200, exp_actual = 1200,
         exp_isPaid = True, exp_showPaidStatus = True, exp_monthlyDataId = 1\<rparr>,
        \<lparr>exp_id = 2, exp_name = ''Groceries'', exp_budgeted = 400, exp_actual = 380,
         exp_isPaid = False, exp_showPaidStatus = False, exp_monthlyDataId = 1\<rparr>]\<rparr>"

definition spec_ledger :: ledger where
  "spec_ledger = \<lparr>months = [spec_jan], nextMonthId = 2, nextExpenseId = 3\<rparr>"

definition two_feb :: MonthlyData where
  "two_feb = \<lparr>md_id = 2, md_month = ''2025-02'',
     incomeSources = [],
     expenseCategories =
       [\<lparr>exp_id = 3, exp_name = ''Utilities'', exp_budgeted = 90, exp_actual = 0,
         exp_isPaid = False, exp_showPaidStatus = False, exp_monthlyDataId = 2\<rparr>]\<rparr>"

definition two_ledger :: ledger where
  "two_ledger = \<lparr>months = [spec_jan, two_feb], nextMonthId = 3, nextExpenseId = 4\<rparr>"

definition two_mar :: MonthlyData where
  "two_mar = \<lparr>md_id = 3, md_month = ''2025-03'',
     incomeSources = [],
     expenseCategories =
       [\<lparr>exp_id = 4, exp_name = ''Utilities'', exp_budgeted = 90, exp_actual = 0,
         exp_isPaid = False, exp_showPaidStatus = False, exp_monthlyDataId = 3\<rparr>]\<rparr>"

definition empty_ledger :: ledger where
  "empty_ledger = \<lparr>months = [], nextMonthId = 1, nextExpenseId = 1\<rparr>"

definition bare_jan :: MonthlyData where
  "bare_jan = \<lparr>md_id = 1, md_month = ''2025-01'', incomeSources = [], expenseCategories = []\<rparr>"

definition bare_ledger :: ledger where
  "bare_ledger = \<lparr>months = [bare_jan], nextMonthId = 2, nextExpenseId = 1\<rparr>"

text \<open>
  Request bodies for a new category: one that names nothing but sets the three fields the
  handler does not read; one that gives a name and a budget with three fractional digits;
  one whose budget has nine integer digits.
\<close>

definition body_all_set :: expense_body where
  "body_all_set = \<lparr>b_name = None, b_budgeted = Absent, b_actual = Numeric 99,
                    b_isPaid = Some True, b_showPaidStatus = Some True\<rparr>"

definition body_named :: expense_body where
  "body_named = \<lparr>b_name = Some ''Gym'', b_budgeted = Numeric (45678 / 1000),
                  b_actual = Numeric 99, b_isPaid = Some True, b_showPaidStatus = Some True\<rparr>"

definition body_overflow :: expense_body where
  "body_overflow = \<lparr>b_name = Some ''Yacht'', b_budgeted = Numeric 123456789,
                     b_actual = Absent, b_isPaid = None, b_showPaidStatus = None\<rparr>"

section \<open>Example users\<close>

text \<open>
  A stand-in for bcrypt: the hash of a password is the password behind a \<open>#\<close>. Two users,
  and the sessions of a visitor who has not logged in and of each user.
\<close>

definition ex_compare :: "string \<Rightarrow> string \<Rightarrow> bool" where
  "ex_compare pw h = (h = CHR ''#'' # pw)"

definition ex_hash :: "string \<Rightarrow> string" where
  "ex_hash pw = CHR ''#'' # pw"

definition ex_owner :: User where
  "ex_owner = \<lparr>user_id = 1, username = ''owner'', password = ''#secret1''\<rparr>"

definition ex_guest :: User where
  "ex_guest = \<lparr>user_id = 2, username = ''guest'', password = ''#welcome''\<rparr>"

definition ex_users :: "User list" where
  "ex_users = [ex_owner, ex_guest]"

definition anonymous :: session where
  "anonymous = \<lparr>userId = None, sess_username = None\<rparr>"

definition owner_session :: session where
  "owner_session = \<lparr>userId = Some 1, sess_username = Some ''owner''\<rparr>"

definition guest_session :: session where
  "guest_session = \<lparr>userId = Some 2, sess_username = Some ''guest''\<rparr>"

section \<open>Properties of the aggregator\<close>

lemma foldl_add_sum_list:
  "foldl (\<lambda>s x. s + f x) a xs = (a::rat) + sum_list (map f xs)"
  by (induction xs arbitrary: a) (simp_all add: add.assoc)

lemma monthExpectedIncome_sum:
  "monthExpectedIncome m = sum_list (map inc_expected (incomeSources m))"
  by (simp add: monthExpectedIncome_def foldl_add_sum_list)

lemma monthActualIncome_sum:
  "monthActualIncome m = sum_list (map inc_actual (incomeSources m))"
  by (simp add: monthActualIncome_def foldl_add_sum_list)

lemma monthActualExpenses_sum:
  "monthActualExpenses m = sum_list (map exp_actual (expenseCategories m))"
  by (simp add: monthActualExpenses_def foldl_add_sum_list)

lemma loop_totalExpectedIncome:
  "totalExpectedIncome (foldl month_step acc ms) =
     totalExpectedIncome acc + sum_list (map monthExpectedIncome ms)"
  by (induction ms arbitrary: acc) (simp_all add: month_step_def add.assoc)

lemma loop_totalActualIncome:
  "totalActualIncome (foldl month_step acc ms) =
     totalActualIncome acc + sum_list (map monthActualIncome ms)"
  by (induction ms arbitrary: acc) (simp_all add: month_step_def add.assoc)

lemma loop_totalBudgeted:
  "totalBudgeted (foldl month_step acc ms) =
     totalBudgeted acc + sum_list (map monthBudgeted ms)"
  by (induction ms arbitrary: acc) (simp_all add: month_step_def add.assoc)

lemma loop_totalActualExpenses:
  "totalActualExpenses (foldl month_step acc ms) =
     totalActualExpenses acc + sum_list (map monthActualExpenses ms)"
  by (induction ms arbitrary: acc) (simp_all add: month_step_def add.assoc)

lemma loop_monthlyBreakdown:
  "acc_monthlyBreakdown (foldl month_step acc ms) =
     acc_monthlyBreakdown acc @ map breakdownItem ms"
  by (induction ms arbitrary: acc) (simp_all add: month_step_def)

lemma summarize_monthlyBreakdown:
  "monthlyBreakdown (summarize y ms) = map breakdownItem ms"
  by (simp add: summarize_def Let_def loop_monthlyBreakdown accum_init_def)

lemma summarize_tot_effectiveIncome:
  "tot_effectiveIncome (totals (summarize y ms)) =
     max (sum_list (map monthExpectedIncome ms)) (sum_list (map monthActualIncome ms))"
  by (simp add: summarize_def Let_def loop_totalExpectedIncome loop_totalActualIncome accum_init_def)

lemma summarize_tot_actualExpenses:
  "tot_actualExpenses (totals (summarize y ms)) = sum_list (map monthActualExpenses ms)"
  by (simp add: summarize_def Let_def loop_totalActualExpenses accum_init_def)

lemma summarize_tot_savings:
  "tot_savings (totals (summarize y ms)) =
     tot_effectiveIncome (totals (summarize y ms)) - tot_actualExpenses (totals (summarize y ms))"
  by (simp add: summarize_def Let_def)

lemma summarize_savingsRate:
  "savingsRate (summarize y ms) =
     (if tot_effectiveIncome (totals (summarize y ms)) > 0
      then 100 * tot_savings (totals (summarize y ms)) / tot_effectiveIncome (totals (summarize y ms))
      else 0)"
  by (simp add: summarize_def Let_def)

lemma insert_by_insort_key:
  "insert_by (\<lambda>a b. k b - k a) x ys = insort_key (\<lambda>a. - k a) x ys"
  by (induction ys) simp_all

lemma js_sort_desc_sort_key:
  "js_sort (\<lambda>a b. k b - k a) xs = sort_key (\<lambda>a. - k a) xs"
  by (induction xs) (simp_all add: js_sort_def insert_by_insort_key)

lemma find_cong_set:
  "(\<And>x. x \<in> set xs \<Longrightarrow> P x = Q x) \<Longrightarrow> find P xs = find Q xs"
  by (induction xs) simp_all

lemma first_or_null_filter:
  "first_or_null (filter P xs) = find P xs"
  by (induction xs) simp_all

lemma last_or_null_filter:
  "last_or_null (filter P xs) = find P (rev xs)"
proof (induction xs rule: rev_induct)
  case Nil
  show ?case by simp
next
  case (snoc x xs)
  show ?case
  proof (cases "P x")
    case True
    have "filter P xs @ [x] = a # as \<Longrightarrow> last_or_null (filter P xs @ [x]) = Some x" for a as
      by (cases "filter P xs") auto
    then have "last_or_null (filter P xs @ [x]) = Some x"
      by (cases "filter P xs @ [x]") auto
    with True show ?thesis by simp
  next
    case False
    with snoc show ?thesis by simp
  qed
qed

lemma first_or_null_sort_key:
  fixes f :: "'a \<Rightarrow> rat"
  shows "first_or_null (sort_key f xs) = find (\<lambda>x. \<forall>y\<in>set xs. f x \<le> f y) xs"
proof (cases "sort_key f xs")
  case Nil
  then have "xs = []" by (metis length_sort list.size(3) length_0_conv)
  then show ?thesis by simp
next
  case (Cons z zs)
  have srt: "sorted (map f (z # zs))" using Cons sorted_sort_key[of f xs] by simp
  have set_eq: "set (z # zs) = set xs" using Cons set_sort[of f xs] by simp
  have zmin: "\<forall>y\<in>set xs. f z \<le> f y" using srt set_eq by auto
  have zin: "z \<in> set xs" using set_eq by auto
  have "first_or_null (sort_key f xs) = first_or_null (filter (\<lambda>y. f y = f z) (sort_key f xs))"
    using Cons by simp
  also have "\<dots> = first_or_null (filter (\<lambda>y. f y = f z) xs)"
    by (simp only: sort_key_stable)
  also have "\<dots> = find (\<lambda>y. f y = f z) xs" by (rule first_or_null_filter)
  also have "\<dots> = find (\<lambda>x. \<forall>y\<in>set xs. f x \<le> f y) xs"
  proof (rule find_cong_set)
    fix x assume "x \<in> set xs"
    then show "(f x = f z) = (\<forall>y\<in>set xs. f x \<le> f y)"
      using zmin zin by (auto intro: antisym)
  qed
  finally show ?thesis .
qed

lemma sorted_map_last_max:
  fixes f :: "'a \<Rightarrow> rat"
  shows "sorted (map f ys) \<Longrightarrow> y \<in> set ys \<Longrightarrow> f y \<le> f (last ys)"
  by (induction ys) auto

lemma find_rev_last:
  "ys \<noteq> [] \<Longrightarrow> P (last ys) \<Longrightarrow> find P (rev ys) = Some (last ys)"
  by (cases ys rule: rev_cases) simp_all

lemma last_or_null_sort_key:
  fixes f :: "'a \<Rightarrow> rat"
  shows "last_or_null (sort_key f xs) = find (\<lambda>x. \<forall>y\<in>set xs. f y \<le> f x) (rev xs)"
proof (cases "sort_key f xs")
  case Nil
  then have "xs = []" by (metis length_sort list.size(3) length_0_conv)
  then show ?thesis by simp
next
  case (Cons z zs)
  define w where "w = last (z # zs)"
  have srt: "sorted (map f (z # zs))" using Cons sorted_sort_key[of f xs] by simp
  have set_eq: "set (z # zs) = set xs" using Cons set_sort[of f xs] by simp
  have win: "w \<in> set xs" using set_eq w_def last_in_set[of "z # zs"] by auto
  have wmax: "\<forall>y\<in>set xs. f y \<le> f w"
    using sorted_map_last_max[OF srt] set_eq w_def by blast
  have "last_or_null (sort_key f xs) = last_or_null (filter (\<lambda>y. f y = f w) (sort_key f xs))"
  proof -
    have "last_or_null (sort_key f xs) = Some w" using Cons w_def by simp
    moreover have "find (\<lambda>y. f y = f w) (rev (sort_key f xs)) = Some w"
      using Cons w_def find_rev_last[of "z # zs" "\<lambda>y. f y = f w"] by simp
    ultimately show ?thesis by (simp add: last_or_null_filter)
  qed
  also have "\<dots> = last_or_null (filter (\<lambda>y. f y = f w) xs)"
    by (simp only: sort_key_stable)
  also have "\<dots> = find (\<lambda>y. f y = f w) (rev xs)" by (rule last_or_null_filter)
  also have "\<dots> = find (\<lambda>x. \<forall>y\<in>set xs. f y \<le> f x) (rev xs)"
  proof (rule find_cong_set)
    fix x assume "x \<in> set (rev xs)"
    then show "(f x = f w) = (\<forall>y\<in>set xs. f y \<le> f x)"
      using wmax win by (auto intro: antisym)
  qed
  finally show ?thesis .
qed

lemma ex_findMany: "findMany_year ex_ledger ''2025'' = [ex_jan, ex_feb]"
  by (simp add: findMany_year_def ex_ledger_def ex_jan_def ex_feb_def)

lemma ex_items:
  "breakdownItem ex_jan = \<lparr>month = ''2025-01'', expectedIncome = 1000, actualIncome = 1200,
      effectiveIncome = 1200, budgeted = 700, actualExpenses = 600, savings = 600\<rparr>"
  "breakdownItem ex_feb = \<lparr>month = ''2025-02'', expectedIncome = 1200, actualIncome = 1000,
      effectiveIncome = 1200, budgeted = 700, actualExpenses = 600, savings = 600\<rparr>"
  by (simp_all add: breakdownItem_def monthExpectedIncome_def monthActualIncome_def
        monthBudgeted_def monthActualExpenses_def ex_jan_def ex_feb_def income_row_def)

lemma year_format_2025: "year_format ''2025''"
  by (simp add: year_format_def is_digit_def)

lemma get_year_Json:
  "year_format y \<Longrightarrow> get_year db y = Json (summarize y (findMany_year db y))"
  by (simp add: get_year_def)

lemma first_or_null_js_sort_desc:
  "first_or_null (js_sort (\<lambda>a b. k b - k a) xs) = first_with_max k xs"
  by (simp add: js_sort_desc_sort_key first_or_null_sort_key first_with_max_def list_all_iff)

lemma last_or_null_js_sort_desc:
  "last_or_null (js_sort (\<lambda>a b. k b - k a) xs) = last_with_min k xs"
  by (simp add: js_sort_desc_sort_key last_or_null_sort_key last_with_min_def list_all_iff)

lemma js_sort_desc_sorted:
  "sorted_wrt (\<lambda>a b. k b \<le> k a) (js_sort (\<lambda>a b. k b - k a) xs)"
proof -
  have "sorted (map (\<lambda>a. - k a) (sort_key (\<lambda>a. - k a) xs))" by (rule sorted_sort_key)
  then show ?thesis by (simp add: js_sort_desc_sort_key sorted_map)
qed

lemma summarize_highlights:
  "bestMonth (highlights (summarize y ms)) = first_with_max savings (map breakdownItem ms)"
  "worstMonth (highlights (summarize y ms)) = last_with_min savings (map breakdownItem ms)"
  "highestSpendingMonth (highlights (summarize y ms)) =
     first_with_max actualExpenses (map breakdownItem ms)"
  "topSpendingCategory (highlights (summarize y ms)) = first_or_null (categoryBreakdown (summarize y ms))"
  by (simp_all add: summarize_def Let_def loop_monthlyBreakdown accum_init_def
        first_or_null_js_sort_desc last_or_null_js_sort_desc)

lemma summarize_categoryBreakdown_sorted:
  "sorted_wrt (\<lambda>a b. cat_actual b \<le> cat_actual a) (categoryBreakdown (summarize y ms))"
  by (simp add: summarize_def Let_def js_sort_desc_sorted)

lemma findMany_year_sorted: "sorted (map md_month (findMany_year db y))"
  by (simp add: findMany_year_def)

lemma month_breakdownItem: "month (breakdownItem m) = md_month m"
  by (simp add: breakdownItem_def Let_def)

lemma breakdown_months_sorted:
  "sorted (map month (map breakdownItem (findMany_year db y)))"
  using findMany_year_sorted[of db y] by (simp add: comp_def month_breakdownItem)

text \<open>
  Claim C3, as amended. For a well-formed year the report's monthly breakdown lists the
  months of the year in ascending key order, and over that list: the best month is the first
  month with the highest savings; the worst month is the last month with the lowest savings
  (the handler sorts stably in descending order and takes the last entry, so among tied
  months the latest one is reported); the highest-spending month is the first month with the
  highest actualExpenses; the category breakdown is in descending order of actual spend and
  the top spending category is its first entry. Each of the four is null exactly when its
  list is empty.
\<close>
theorem yearly_highlights:
  "year_format y \<Longrightarrow>
   \<exists>r. get_year db y = Json r \<and>
       monthlyBreakdown r = map breakdownItem (findMany_year db y) \<and>
       sorted (map month (monthlyBreakdown r)) \<and>
       bestMonth (highlights r) = first_with_max savings (monthlyBreakdown r) \<and>
       worstMonth (highlights r) = last_with_min savings (monthlyBreakdown r) \<and>
       highestSpendingMonth (highlights r) = first_with_max actualExpenses (monthlyBreakdown r) \<and>
       sorted_wrt (\<lambda>a b. cat_actual b \<le> cat_actual a) (categoryBreakdown r) \<and>
       topSpendingCategory (highlights r) = first_or_null (categoryBreakdown r)"
  by (simp add: get_year_Json summarize_monthlyBreakdown summarize_highlights
        summarize_categoryBreakdown_sorted breakdown_months_sorted del: map_map)

lemma ex_breakdown:
  "map breakdownItem [ex_jan, ex_feb] =
     [\<lparr>month = ''2025-01'', expectedIncome = 1000, actualIncome = 1200,
       effectiveIncome = 1200, budgeted = 700, actualExpenses = 600, savings = 600\<rparr>,
      \<lparr>month = ''2025-02'', expectedIncome = 1200, actualIncome = 1000,
       effectiveIncome = 1200, budgeted = 700, actualExpenses = 600, savings = 600\<rparr>]"
  by (simp add: ex_items)

text \<open>The example ledger: both months save 600; January is best, February worst.\<close>

theorem yearly_highlights_witness:
  "year_format ''2025'' \<and>
   (\<exists>r. get_year ex_ledger ''2025'' = Json r \<and>
        map month (monthlyBreakdown r) = [''2025-01'', ''2025-02''] \<and>
        map savings (monthlyBreakdown r) = [600, 600] \<and>
        map_option month (bestMonth (highlights r)) = Some ''2025-01'' \<and>
        map_option month (worstMonth (highlights r)) = Some ''2025-02'' \<and>
        map_option month (highestSpendingMonth (highlights r)) = Some ''2025-01'')"
proof -
  from yearly_highlights[OF year_format_2025, of ex_ledger]
  obtain r where r1: "get_year ex_ledger ''2025'' = Json r"
    and r2: "monthlyBreakdown r = map breakdownItem (findMany_year ex_ledger ''2025'')"
    and r3: "bestMonth (highlights r) = first_with_max savings (monthlyBreakdown r)"
    and r4: "worstMonth (highlights r) = last_with_min savings (monthlyBreakdown r)"
    and r5: "highestSpendingMonth (highlights r) = first_with_max actualExpenses (monthlyBreakdown r)"
    by (elim exE conjE)
  have bs: "monthlyBreakdown r = map breakdownItem [ex_jan, ex_feb]"
    using r2 by (simp only: ex_findMany)
  have a: "map month (monthlyBreakdown r) = [''2025-01'', ''2025-02'']"
    and b: "map savings (monthlyBreakdown r) = [600, 600]"
    unfolding bs ex_breakdown by simp_all
  have c: "map_option month (bestMonth (highlights r)) = Some ''2025-01''"
    unfolding r3 bs ex_breakdown by (simp add: first_with_max_def)
  have d: "map_option month (worstMonth (highlights r)) = Some ''2025-02''"
    unfolding r4 bs ex_breakdown by (simp add: last_with_min_def)
  have e: "map_option month (highestSpendingMonth (highlights r)) = Some ''2025-01''"
    unfolding r5 bs ex_breakdown by (simp add: first_with_max_def)
  show ?thesis
    by (rule conjI[OF year_format_2025]) (rule exI[of _ r], simp only: r1 a b c d e simp_thms)
qed

text \<open>
  Claim C3 as stated fails: with January and February tied at the lowest savings, the first
  of them is January, and the handler reports February.
\<close>

theorem yearly_worstMonth_counterexample:
  "get_year ex_ledger ''2025'' = Json (summarize ''2025'' [ex_jan, ex_feb]) \<and>
   map savings (monthlyBreakdown (summarize ''2025'' [ex_jan, ex_feb])) = [600, 600] \<and>
   map_option month (worstMonth (highlights (summarize ''2025'' [ex_jan, ex_feb]))) = Some ''2025-02'' \<and>
   map_option month (first_with_min savings (monthlyBreakdown (summarize ''2025'' [ex_jan, ex_feb])))
     = Some ''2025-01''"
proof -
  have a: "get_year ex_ledger ''2025'' = Json (summarize ''2025'' [ex_jan, ex_feb])"
    using get_year_Json[OF year_format_2025, of ex_ledger] by (simp only: ex_findMany)
  have b: "map savings (monthlyBreakdown (summarize ''2025'' [ex_jan, ex_feb])) = [600, 600]"
    unfolding summarize_monthlyBreakdown ex_breakdown by simp
  have c: "map_option month (worstMonth (highlights (summarize ''2025'' [ex_jan, ex_feb]))) = Some ''2025-02''"
    unfolding summarize_highlights ex_breakdown by (simp add: last_with_min_def)
  have d: "map_option month (first_with_min savings (monthlyBreakdown (summarize ''2025'' [ex_jan, ex_feb])))
     = Some ''2025-01''"
    unfolding summarize_monthlyBreakdown ex_breakdown by (simp add: first_with_min_def)
  show ?thesis by (simp only: a b c d simp_thms)
qed

lemma summarize_expected_breakdown:
  "sum_list (map monthExpectedIncome ms) = sum_list (map expectedIncome (map breakdownItem ms))"
  "sum_list (map monthActualIncome ms) = sum_list (map actualIncome (map breakdownItem ms))"
  by (simp_all add: comp_def breakdownItem_def Let_def)

lemma sum_list_max_le:
  fixes f g :: "'a \<Rightarrow> rat"
  shows "max (sum_list (map f xs)) (sum_list (map g xs)) \<le> sum_list (map (\<lambda>x. max (f x) (g x)) xs)"
  by (induction xs) auto

lemma effectiveIncome_breakdownItem:
  "effectiveIncome (breakdownItem m) = max (monthExpectedIncome m) (monthActualIncome m)"
  by (simp add: breakdownItem_def Let_def)

text \<open>
  Claim C1. For a well-formed year the report's total effectiveIncome is the maximum of the
  sum of the months' expectedIncome and the sum of the months' actualIncome, the sums being
  taken over the monthly breakdown. It never exceeds the sum of the months' own
  effectiveIncome, and the two differ in general: for the example ledger the total is 2200
  while the months' maxima add up to 2400.
\<close>
theorem yearly_effectiveIncome_max_of_sums:
  "(year_format y \<longrightarrow>
     (\<exists>r. get_year db y = Json r \<and>
          monthlyBreakdown r = map breakdownItem (findMany_year db y) \<and>
          tot_expectedIncome (totals r) = sum_list (map expectedIncome (monthlyBreakdown r)) \<and>
          tot_actualIncome (totals r) = sum_list (map actualIncome (monthlyBreakdown r)) \<and>
          tot_effectiveIncome (totals r) =
            max (sum_list (map expectedIncome (monthlyBreakdown r)))
                (sum_list (map actualIncome (monthlyBreakdown r))) \<and>
          tot_effectiveIncome (totals r) \<le> sum_list (map effectiveIncome (monthlyBreakdown r)))) \<and>
   (\<exists>r. get_year ex_ledger ''2025'' = Json r \<and>
        tot_effectiveIncome (totals r) \<noteq> sum_list (map effectiveIncome (monthlyBreakdown r)))"
proof (intro conjI impI)
  assume y: "year_format y"
  let ?ms = "findMany_year db y"
  let ?r = "summarize y ?ms"
  have e: "tot_expectedIncome (totals ?r) = sum_list (map expectedIncome (monthlyBreakdown ?r))"
    unfolding summarize_monthlyBreakdown summarize_expected_breakdown[symmetric]
    by (simp add: summarize_def Let_def loop_totalExpectedIncome accum_init_def)
  have a: "tot_actualIncome (totals ?r) = sum_list (map actualIncome (monthlyBreakdown ?r))"
    unfolding summarize_monthlyBreakdown summarize_expected_breakdown[symmetric]
    by (simp add: summarize_def Let_def loop_totalActualIncome accum_init_def)
  have m: "tot_effectiveIncome (totals ?r) =
            max (sum_list (map expectedIncome (monthlyBreakdown ?r)))
                (sum_list (map actualIncome (monthlyBreakdown ?r)))"
    unfolding summarize_monthlyBreakdown summarize_expected_breakdown[symmetric]
    by (rule summarize_tot_effectiveIncome)
  have "sum_list (map effectiveIncome (monthlyBreakdown ?r)) =
          sum_list (map (\<lambda>m. max (monthExpectedIncome m) (monthActualIncome m)) ?ms)"
    by (simp add: summarize_monthlyBreakdown comp_def effectiveIncome_breakdownItem)
  then have l: "tot_effectiveIncome (totals ?r) \<le> sum_list (map effectiveIncome (monthlyBreakdown ?r))"
    using sum_list_max_le[of monthExpectedIncome ?ms monthActualIncome]
    by (simp only: summarize_tot_effectiveIncome)
  show "\<exists>r. get_year db y = Json r \<and>
          monthlyBreakdown r = map breakdownItem (findMany_year db y) \<and>
          tot_expectedIncome (totals r) = sum_list (map expectedIncome (monthlyBreakdown r)) \<and>
          tot_actualIncome (totals r) = sum_list (map actualIncome (monthlyBreakdown r)) \<and>
          tot_effectiveIncome (totals r) =
            max (sum_list (map expectedIncome (monthlyBreakdown r)))
                (sum_list (map actualIncome (monthlyBreakdown r))) \<and>
          tot_effectiveIncome (totals r) \<le> sum_list (map effectiveIncome (monthlyBreakdown r))"
    using get_year_Json[OF y, of db] summarize_monthlyBreakdown[of y ?ms] e a m l
    by (intro exI[of _ ?r] conjI)
next
  let ?r = "summarize ''2025'' [ex_jan, ex_feb]"
  have g: "get_year ex_ledger ''2025'' = Json ?r"
    using get_year_Json[OF year_format_2025, of ex_ledger] by (simp only: ex_findMany)
  have t: "tot_effectiveIncome (totals ?r) = 2200"
    unfolding summarize_tot_effectiveIncome summarize_expected_breakdown ex_breakdown by simp
  have s: "sum_list (map effectiveIncome (monthlyBreakdown ?r)) = 2400"
    unfolding summarize_monthlyBreakdown ex_breakdown by simp
  show "\<exists>r. get_year ex_ledger ''2025'' = Json r \<and>
        tot_effectiveIncome (totals r) \<noteq> sum_list (map effectiveIncome (monthlyBreakdown r))"
    by (rule exI[of _ ?r]) (simp only: g t s, simp)
qed

theorem yearly_effectiveIncome_max_of_sums_witness:
  "year_format ''2025'' \<and>
   (\<exists>r. get_year ex_ledger ''2025'' = Json r \<and>
        map expectedIncome (monthlyBreakdown r) = [1000, 1200] \<and>
        map actualIncome (monthlyBreakdown r) = [1200, 1000] \<and>
        map effectiveIncome (monthlyBreakdown r) = [1200, 1200] \<and>
        tot_effectiveIncome (totals r) = 2200)"
proof -
  from yearly_effectiveIncome_max_of_sums[of "''2025''" ex_ledger] year_format_2025
  obtain r where r1: "get_year ex_ledger ''2025'' = Json r"
    and r2: "monthlyBreakdown r = map breakdownItem (findMany_year ex_ledger ''2025'')"
    and r3: "tot_effectiveIncome (totals r) =
            max (sum_list (map expectedIncome (monthlyBreakdown r)))
                (sum_list (map actualIncome (monthlyBreakdown r)))"
    by (elim conjE impE exE)
  have bs: "monthlyBreakdown r = map breakdownItem [ex_jan, ex_feb]"
    using r2 by (simp only: ex_findMany)
  have a: "map expectedIncome (monthlyBreakdown r) = [1000, 1200]"
    and b: "map actualIncome (monthlyBreakdown r) = [1200, 1000]"
    and c: "map effectiveIncome (monthlyBreakdown r) = [1200, 1200]"
    unfolding bs ex_breakdown by simp_all
  have d: "tot_effectiveIncome (totals r) = 2200"
    unfolding r3 a b by simp
  show ?thesis
    by (rule conjI[OF year_format_2025]) (rule exI[of _ r], simp only: r1 a b c d simp_thms)
qed

text \<open>
  Claim C4, as amended. totalSavings is totalEffectiveIncome minus totalActualExpenses. When
  totalEffectiveIncome is positive, savingsRate is 100 times totalSavings divided by
  totalEffectiveIncome; when it is zero or negative, savingsRate is exactly 0, whatever the
  expenses are.
\<close>
theorem yearly_savingsRate:
  "year_format y \<Longrightarrow>
   \<exists>r. get_year db y = Json r \<and>
       tot_savings (totals r) = tot_effectiveIncome (totals r) - tot_actualExpenses (totals r) \<and>
       (0 < tot_effectiveIncome (totals r) \<longrightarrow>
          savingsRate r = 100 * tot_savings (totals r) / tot_effectiveIncome (totals r)) \<and>
       (tot_effectiveIncome (totals r) \<le> 0 \<longrightarrow> savingsRate r = 0)"
  using summarize_savingsRate[of y "findMany_year db y"] summarize_tot_savings[of y "findMany_year db y"]
  by (simp add: get_year_Json)

lemma ex_totals:
  "tot_effectiveIncome (totals (summarize ''2025'' [ex_jan, ex_feb])) = 2200"
  "tot_actualExpenses (totals (summarize ''2025'' [ex_jan, ex_feb])) = 1200"
  unfolding summarize_tot_effectiveIncome summarize_tot_actualExpenses
  by (simp_all add: monthExpectedIncome_def monthActualIncome_def monthActualExpenses_def
        ex_jan_def ex_feb_def income_row_def)

theorem yearly_savingsRate_witness:
  "year_format ''2025'' \<and>
   (\<exists>r. get_year ex_ledger ''2025'' = Json r \<and>
        tot_effectiveIncome (totals r) = 2200 \<and> tot_savings (totals r) = 1000 \<and>
        savingsRate r = 500 / 11)"
proof -
  let ?s = "summarize ''2025'' [ex_jan, ex_feb]"
  from yearly_savingsRate[OF year_format_2025, of ex_ledger]
  obtain r where r1: "get_year ex_ledger ''2025'' = Json r"
    and r2: "tot_savings (totals r) = tot_effectiveIncome (totals r) - tot_actualExpenses (totals r)"
    and r3: "0 < tot_effectiveIncome (totals r) \<longrightarrow>
          savingsRate r = 100 * tot_savings (totals r) / tot_effectiveIncome (totals r)"
    by (elim exE conjE)
  have "get_year ex_ledger ''2025'' = Json ?s"
    using get_year_Json[OF year_format_2025, of ex_ledger] by (simp only: ex_findMany)
  then have rs: "r = ?s" using r1 by simp
  have a: "tot_effectiveIncome (totals r) = 2200" and e: "tot_actualExpenses (totals r) = 1200"
    unfolding rs by (rule ex_totals)+
  have b: "tot_savings (totals r) = 1000" unfolding r2 a e by simp
  have c: "savingsRate r = 500 / 11" using r3 unfolding a b by simp
  show ?thesis
    by (rule conjI[OF year_format_2025]) (rule exI[of _ r], simp only: r1 a b c simp_thms)
qed

lemma neg_findMany: "findMany_year neg_ledger ''2025'' = [neg_jan]"
  by (simp add: findMany_year_def neg_ledger_def neg_jan_def)

text \<open>
  Claim C4 as stated fails on a negative total: with an effective income of -100 and savings
  of -150 the quotient is 150, and the handler reports 0.
\<close>

theorem yearly_savingsRate_counterexample:
  "get_year neg_ledger ''2025'' = Json (summarize ''2025'' [neg_jan]) \<and>
   tot_effectiveIncome (totals (summarize ''2025'' [neg_jan])) = - 100 \<and>
   tot_savings (totals (summarize ''2025'' [neg_jan])) = - 150 \<and>
   savingsRate (summarize ''2025'' [neg_jan]) = 0 \<and>
   100 * tot_savings (totals (summarize ''2025'' [neg_jan]))
       / tot_effectiveIncome (totals (summarize ''2025'' [neg_jan])) = 150"
proof -
  let ?s = "summarize ''2025'' [neg_jan]"
  have g: "get_year neg_ledger ''2025'' = Json ?s"
    using get_year_Json[OF year_format_2025, of neg_ledger] by (simp only: neg_findMany)
  have a: "tot_effectiveIncome (totals ?s) = - 100"
    unfolding summarize_tot_effectiveIncome
    by (simp add: monthExpectedIncome_def monthActualIncome_def neg_jan_def income_row_def)
  have e: "tot_actualExpenses (totals ?s) = 50"
    unfolding summarize_tot_actualExpenses
    by (simp add: monthActualExpenses_def neg_jan_def)
  have b: "tot_savings (totals ?s) = - 150"
    unfolding summarize_tot_savings a e by simp
  have c: "savingsRate ?s = 0"
    unfolding summarize_savingsRate a by simp
  show ?thesis unfolding g a b c by simp
qed

text \<open>
  When no income row of the ledger has a negative expected amount, the total effective
  income is not negative, and the rate is the quotient unless the total is 0.
\<close>

lemma yearly_savingsRate_nonnegative_income:
  assumes nn: "\<forall>m\<in>set (months db). \<forall>i\<in>set (incomeSources m). 0 \<le> inc_expected i"
  shows "savingsRate (summarize y (findMany_year db y)) =
           (if tot_effectiveIncome (totals (summarize y (findMany_year db y))) = 0 then 0
            else 100 * tot_savings (totals (summarize y (findMany_year db y)))
                   / tot_effectiveIncome (totals (summarize y (findMany_year db y))))"
proof -
  let ?ms = "findMany_year db y"
  have sub: "set ?ms \<subseteq> set (months db)" by (auto simp: findMany_year_def)
  have "0 \<le> monthExpectedIncome m" if "m \<in> set ?ms" for m
    unfolding monthExpectedIncome_sum using that sub nn by (intro sum_list_nonneg) auto
  then have "0 \<le> sum_list (map monthExpectedIncome ?ms)"
    by (intro sum_list_nonneg) auto
  then have "0 \<le> tot_effectiveIncome (totals (summarize y ?ms))"
    unfolding summarize_tot_effectiveIncome by simp
  then show ?thesis
    using summarize_savingsRate[of y ?ms] by auto
qed

text \<open>
  Claim C9. For a well-formed year none of whose months is in the ledger, the report has
  monthCount 0, every total 0, savingsRate 0, every average 0 (the divisor is 1), empty
  monthly and category breakdowns, and the four highlights null.
\<close>
theorem yearly_empty_year:
  "year_format y \<Longrightarrow> \<forall>r\<in>set (months db). take (length y) (md_month r) \<noteq> y \<Longrightarrow>
   get_year db y =
     Json \<lparr>year = y, monthCount = 0,
           totals = \<lparr>tot_expectedIncome = 0, tot_actualIncome = 0, tot_effectiveIncome = 0,
                     tot_budgeted = 0, tot_actualExpenses = 0, tot_savings = 0\<rparr>,
           averages = \<lparr>monthlyIncome = 0, monthlyExpenses = 0, monthlySavings = 0\<rparr>,
           savingsRate = 0,
           monthlyBreakdown = [],
           categoryBreakdown = [],
           highlights = \<lparr>bestMonth = None, worstMonth = None, highestSpendingMonth = None,
                         topSpendingCategory = None\<rparr>\<rparr>"
proof -
  assume y: "year_format y" and none: "\<forall>r\<in>set (months db). take (length y) (md_month r) \<noteq> y"
  have "filter (\<lambda>r. take (length y) (md_month r) = y) (months db) = []"
    using none by (simp add: filter_empty_conv)
  then have "findMany_year db y = []" by (simp add: findMany_year_def)
  then show ?thesis
    using y by (simp add: get_year_def summarize_def accum_init_def js_sort_def)
qed

lemma year_format_2024: "year_format ''2024''"
  by (simp add: year_format_def is_digit_def)

text \<open>The example ledger holds months of 2025 only; the report for 2024 is the empty one.\<close>

theorem yearly_empty_year_witness:
  "year_format ''2024'' \<and> map md_month (months ex_ledger) = [''2025-02'', ''2025-01''] \<and>
   get_year ex_ledger ''2024'' =
     Json \<lparr>year = ''2024'', monthCount = 0,
           totals = \<lparr>tot_expectedIncome = 0, tot_actualIncome = 0, tot_effectiveIncome = 0,
                     tot_budgeted = 0, tot_actualExpenses = 0, tot_savings = 0\<rparr>,
           averages = \<lparr>monthlyIncome = 0, monthlyExpenses = 0, monthlySavings = 0\<rparr>,
           savingsRate = 0,
           monthlyBreakdown = [],
           categoryBreakdown = [],
           highlights = \<lparr>bestMonth = None, worstMonth = None, highestSpendingMonth = None,
                         topSpendingCategory = None\<rparr>\<rparr>"
proof -
  have n: "\<forall>r\<in>set (months ex_ledger). take (length ''2024'') (md_month r) \<noteq> ''2024''"
    by (simp add: ex_ledger_def ex_jan_def ex_feb_def)
  have m: "map md_month (months ex_ledger) = [''2025-02'', ''2025-01'']"
    by (simp add: ex_ledger_def ex_jan_def ex_feb_def)
  show ?thesis
    using yearly_empty_year[OF year_format_2024 n] year_format_2024 m by simp
qed

section \<open>Properties of the month resolver\<close>

lemma findUnique_None:
  "findUnique db m = None \<longleftrightarrow> m \<notin> set (map md_month (months db))"
  by (auto simp: findUnique_def find_None_iff)

lemma findFirst_lt_none:
  "\<forall>r\<in>set (months db). \<not> md_month r < m \<Longrightarrow> findFirst_lt db m = None"
proof -
  assume "\<forall>r\<in>set (months db). \<not> md_month r < m"
  then have "filter (\<lambda>r. md_month r < m) (months db) = []"
    by (simp add: filter_empty_conv)
  then show ?thesis by (simp add: findFirst_lt_def)
qed

lemma sorted_key_last_max:
  fixes f :: "'a \<Rightarrow> string"
  shows "sorted (map f ys) \<Longrightarrow> y \<in> set ys \<Longrightarrow> f y \<le> f (last ys)"
  by (induction ys) auto

lemma rev_first_last:
  "ys \<noteq> [] \<Longrightarrow> (case rev ys of [] \<Rightarrow> None | r # rs \<Rightarrow> Some r) = Some (last ys)"
  by (cases ys rule: rev_cases) simp_all

lemma findFirst_lt_nearest:
  assumes u: "unique_months db" and n: "nearest_earlier db m p"
  shows "findFirst_lt db m = Some p"
proof -
  let ?xs = "filter (\<lambda>r. md_month r < m) (months db)"
  let ?ys = "sort_key md_month ?xs"
  from n have pin: "p \<in> set (months db)" and plt: "md_month p < m"
    and pmax: "\<forall>r\<in>set (months db). md_month r < m \<longrightarrow> md_month r \<le> md_month p"
    by (simp_all add: nearest_earlier_def)
  have pys: "p \<in> set ?ys" using pin plt by simp
  then have ne: "?ys \<noteq> []" by (metis empty_iff empty_set)
  have lin: "last ?ys \<in> set ?ys" using ne by (rule last_in_set)
  then have l1: "last ?ys \<in> set (months db)" and l2: "md_month (last ?ys) < m" by simp_all
  have "md_month p \<le> md_month (last ?ys)"
    using sorted_key_last_max[of md_month ?ys p] pys by simp
  moreover have "md_month (last ?ys) \<le> md_month p" using pmax l1 l2 by blast
  ultimately have "md_month (last ?ys) = md_month p" by (rule antisym[rotated])
  moreover have "inj_on md_month (set (months db))"
    using u by (simp add: unique_months_def distinct_map)
  ultimately have "last ?ys = p" using l1 pin by (auto dest: inj_onD)
  moreover have "(case rev ?ys of [] \<Rightarrow> None | r # rs \<Rightarrow> Some r) = Some (last ?ys)"
    using ne by (rule rev_first_last)
  ultimately show ?thesis by (simp only: findFirst_lt_def)
qed

lemma create_month_fresh:
  "m \<notin> set (map md_month (months db)) \<Longrightarrow>
   create_month db m cats =
     (let row = \<lparr>md_id = nextMonthId db, md_month = m, incomeSources = [],
                 expenseCategories =
                   map (\<lambda>(i, c). expense_row (nextMonthId db) i c)
                     (zip [nextExpenseId db ..< nextExpenseId db + length cats] cats)\<rparr>
      in Some (row, db\<lparr>months := months db @ [row], nextMonthId := nextMonthId db + 1,
                       nextExpenseId := nextExpenseId db + length cats\<rparr>))"
  by (auto simp: create_month_def list_ex_iff Let_def)

lemma rows_field:
  assumes "\<And>i c. g (expense_row mid i c) = h c"
  shows "map g (map (\<lambda>(i, c). expense_row mid i c) (zip [n ..< n + length cats] cats)) = map h cats"
proof -
  have "map g (map (\<lambda>(i, c). expense_row mid i c) (zip is cats)) = map h cats"
    if "length is = length cats" for "is"
    using that assms by (induction "is" cats rule: list_induct2) simp_all
  then show ?thesis by simp
qed

lemma get_month_creates:
  assumes f: "month_format m" and a: "m \<notin> set (map md_month (months db))"
  shows "get_month db m =
           (let cats = categoriesToClone (findFirst_lt db m);
                row = \<lparr>md_id = nextMonthId db, md_month = m, incomeSources = [],
                       expenseCategories =
                         map (\<lambda>(i, c). expense_row (nextMonthId db) i c)
                           (zip [nextExpenseId db ..< nextExpenseId db + length cats] cats)\<rparr>
            in (Json row, db\<lparr>months := months db @ [row], nextMonthId := nextMonthId db + 1,
                             nextExpenseId := nextExpenseId db + length cats\<rparr>))"
proof -
  have u: "findUnique db m = None" using a by (simp add: findUnique_None)
  show ?thesis
    using f u by (simp add: get_month_def create_month_fresh[OF a] Let_def)
qed

lemma get_month_keeps_unique_months:
  assumes u: "unique_months db"
  shows "unique_months (snd (get_month db m))"
proof (cases "month_format m")
  case False
  then show ?thesis using u by (simp add: get_month_def)
next
  case True
  show ?thesis
  proof (cases "findUnique db m")
    case (Some r)
    then show ?thesis using u True by (simp add: get_month_def)
  next
    case None
    then have a: "m \<notin> set (map md_month (months db))" by (simp add: findUnique_None)
    show ?thesis
      using u a get_month_creates[OF True a] by (simp add: Let_def unique_months_def)
  qed
qed

lemma list_all_map_bool: "list_all g xs = list_all (\<lambda>b. b) (map g xs)"
  by (simp add: list_all_iff)

lemma categoriesToClone_some:
  "expenseCategories p \<noteq> [] \<Longrightarrow>
   categoriesToClone (Some p) = map clone_category (expenseCategories p)"
  by (simp add: categoriesToClone_def)

lemma categoriesToClone_default:
  "prev = None \<or> (\<exists>p. prev = Some p \<and> expenseCategories p = []) \<Longrightarrow>
   categoriesToClone prev = map default_category DEFAULT_CATEGORIES"
  by (auto simp: categoriesToClone_def)

text \<open>
  Claim C2, as amended. On the first read of a well-formed month key \<open>M\<close> that is not in
  the ledger, when \<open>P\<close> is the stored month with the greatest key strictly below \<open>M\<close> and
  \<open>P\<close> has at least one expense category, the handler answers with a new month \<open>M\<close>,
  appended to the ledger, whose categories agree with those of \<open>P\<close>, in order, in name,
  budgeted and showPaidStatus, each with actual 0 and isPaid false, and which has no income
  source.
\<close>
theorem get_month_clones_nearest_earlier:
  assumes f: "month_format M"
    and u: "unique_months db"
    and a: "M \<notin> set (map md_month (months db))"
    and n: "nearest_earlier db M P"
    and c: "expenseCategories P \<noteq> []"
  shows "\<exists>row db'. get_month db M = (Json row, db') \<and>
           months db' = months db @ [row] \<and>
           md_month row = M \<and>
           map category_shape (expenseCategories row) = map category_shape (expenseCategories P) \<and>
           list_all (\<lambda>c. exp_actual c = 0 \<and> \<not> exp_isPaid c) (expenseCategories row) \<and>
           incomeSources row = []"
proof -
  have prev: "categoriesToClone (findFirst_lt db M) = map clone_category (expenseCategories P)"
    using findFirst_lt_nearest[OF u n] categoriesToClone_some[OF c] by simp
  define row where "row = \<lparr>md_id = nextMonthId db, md_month = M, incomeSources = [],
      expenseCategories =
        map (\<lambda>(i, c). expense_row (nextMonthId db) i c)
          (zip [nextExpenseId db ..< nextExpenseId db + length (expenseCategories P)]
             (map clone_category (expenseCategories P)))\<rparr>"
  have g: "get_month db M =
           (Json row, db\<lparr>months := months db @ [row], nextMonthId := nextMonthId db + 1,
              nextExpenseId := nextExpenseId db + length (expenseCategories P)\<rparr>)"
    using get_month_creates[OF f a] by (simp add: prev Let_def row_def)
  have m: "md_month row = M" and i: "incomeSources row = []" by (simp_all add: row_def)
  have s: "map category_shape (expenseCategories row) = map category_shape (expenseCategories P)"
    using rows_field[of category_shape "nextMonthId db"
        "\<lambda>c. (cd_name c, cd_budgeted c, cd_showPaidStatus c)" "nextExpenseId db"
        "map clone_category (expenseCategories P)"]
    by (simp add: row_def category_shape_def expense_row_def clone_category_def comp_def)
  have "map (\<lambda>c. exp_actual c = 0 \<and> \<not> exp_isPaid c) (expenseCategories row) =
        map (\<lambda>c. True) (expenseCategories P)"
    using rows_field[of "\<lambda>c. exp_actual c = 0 \<and> \<not> exp_isPaid c" "nextMonthId db"
        "\<lambda>c. cd_actual c = 0 \<and> \<not> cd_isPaid c" "nextExpenseId db"
        "map clone_category (expenseCategories P)"]
    by (simp add: row_def expense_row_def clone_category_def comp_def)
  then have z: "list_all (\<lambda>c. exp_actual c = 0 \<and> \<not> exp_isPaid c) (expenseCategories row)"
    by (subst list_all_map_bool) (simp add: list_all_iff)
  show ?thesis
    using g m i s z by simp
qed

lemma month_format_examples:
  "month_format ''2025-01''" "month_format ''2025-02''" "month_format ''2025-03''"
  by (simp_all add: month_format_def is_digit_def)

text \<open>
  The example of the specification: February 2025 is first read when only January is stored.
\<close>

theorem get_month_clones_nearest_earlier_witness:
  "month_format ''2025-02'' \<and> unique_months spec_ledger \<and>
   ''2025-02'' \<notin> set (map md_month (months spec_ledger)) \<and>
   nearest_earlier spec_ledger ''2025-02'' spec_jan \<and>
   map category_fields (expenseCategories spec_jan) =
     [(''Rent'', 1200, 1200, True, True), (''Groceries'', 400, 380, False, False)] \<and>
   (\<exists>row db'. get_month spec_ledger ''2025-02'' = (Json row, db') \<and>
      months db' = [spec_jan, row] \<and>
      md_month row = ''2025-02'' \<and>
      map category_shape (expenseCategories row) =
        [(''Rent'', 1200, True), (''Groceries'', 400, False)] \<and>
      list_all (\<lambda>c. exp_actual c = 0 \<and> \<not> exp_isPaid c) (expenseCategories row) \<and>
      incomeSources row = [])"
proof -
  have u: "unique_months spec_ledger"
    by (simp add: unique_months_def spec_ledger_def)
  have a: "''2025-02'' \<notin> set (map md_month (months spec_ledger))"
    by (simp add: spec_ledger_def spec_jan_def)
  have n: "nearest_earlier spec_ledger ''2025-02'' spec_jan"
    by (simp add: nearest_earlier_def spec_ledger_def spec_jan_def)
  have c: "expenseCategories spec_jan \<noteq> []" by (simp add: spec_jan_def)
  have e: "map category_fields (expenseCategories spec_jan) =
     [(''Rent'', 1200, 1200, True, True), (''Groceries'', 400, 380, False, False)]"
    by (simp add: spec_jan_def category_fields_def)
  have sh: "map category_shape (expenseCategories spec_jan) =
     [(''Rent'', 1200, True), (''Groceries'', 400, False)]"
    by (simp add: spec_jan_def category_shape_def)
  have ms: "months spec_ledger = [spec_jan]" by (simp add: spec_ledger_def)
  from get_month_clones_nearest_earlier[OF month_format_examples(2) u a n c]
  have "\<exists>row db'. get_month spec_ledger ''2025-02'' = (Json row, db') \<and>
      months db' = [spec_jan, row] \<and>
      md_month row = ''2025-02'' \<and>
      map category_shape (expenseCategories row) =
        [(''Rent'', 1200, True), (''Groceries'', 400, False)] \<and>
      list_all (\<lambda>c. exp_actual c = 0 \<and> \<not> exp_isPaid c) (expenseCategories row) \<and>
      incomeSources row = []"
    unfolding sh ms by simp
  then show ?thesis
    using month_format_examples(2) u a n e by (intro conjI)
qed

lemma two_get_month:
  "get_month two_ledger ''2025-03'' =
     (Json two_mar, \<lparr>months = [spec_jan, two_feb, two_mar], nextMonthId = 4, nextExpenseId = 5\<rparr>)"
proof -
  have a: "findUnique two_ledger ''2025-03'' = None"
    by (simp add: findUnique_def two_ledger_def spec_jan_def two_feb_def)
  have p: "findFirst_lt two_ledger ''2025-03'' = Some two_feb"
    by (simp add: findFirst_lt_def two_ledger_def spec_jan_def two_feb_def)
  have c: "categoriesToClone (Some two_feb) =
     [\<lparr>cd_name = ''Utilities'', cd_budgeted = 90, cd_actual = 0, cd_isPaid = False,
       cd_showPaidStatus = False\<rparr>]"
    by (simp add: categoriesToClone_def two_feb_def clone_category_def)
  have k: "create_month two_ledger ''2025-03''
      [\<lparr>cd_name = ''Utilities'', cd_budgeted = 90, cd_actual = 0, cd_isPaid = False,
       cd_showPaidStatus = False\<rparr>] =
     Some (two_mar, \<lparr>months = [spec_jan, two_feb, two_mar], nextMonthId = 4, nextExpenseId = 5\<rparr>)"
    by (simp add: create_month_def two_ledger_def spec_jan_def two_feb_def two_mar_def
          expense_row_def Let_def)
  show ?thesis
    by (simp add: get_month_def month_format_examples a p c k)
qed

text \<open>
  Claim C2 as stated fails for an earlier month that is not the nearest: with January and
  February stored, a first read of March clones February, and January, which is earlier and
  has categories, is not what the new month equals.
\<close>

theorem get_month_earlier_month_counterexample:
  "spec_jan \<in> set (months two_ledger) \<and> md_month spec_jan < ''2025-03'' \<and>
   expenseCategories spec_jan \<noteq> [] \<and>
   findUnique two_ledger ''2025-03'' = None \<and>
   get_month two_ledger ''2025-03'' =
     (Json two_mar, \<lparr>months = [spec_jan, two_feb, two_mar], nextMonthId = 4, nextExpenseId = 5\<rparr>) \<and>
   map category_shape (expenseCategories two_mar) = [(''Utilities'', 90, False)] \<and>
   map category_shape (expenseCategories spec_jan) =
     [(''Rent'', 1200, True), (''Groceries'', 400, False)]"
proof -
  have 1: "spec_jan \<in> set (months two_ledger)" by (simp add: two_ledger_def)
  have 2: "md_month spec_jan < ''2025-03''" by (simp add: spec_jan_def)
  have 3: "expenseCategories spec_jan \<noteq> []" by (simp add: spec_jan_def)
  have 4: "findUnique two_ledger ''2025-03'' = None"
    by (simp add: findUnique_def two_ledger_def spec_jan_def two_feb_def)
  have 5: "map category_shape (expenseCategories two_mar) = [(''Utilities'', 90, False)]"
    by (simp add: two_mar_def category_shape_def)
  have 6: "map category_shape (expenseCategories spec_jan) =
     [(''Rent'', 1200, True), (''Groceries'', 400, False)]"
    by (simp add: spec_jan_def category_shape_def)
  show ?thesis using 1 2 3 4 5 6 two_get_month by (intro conjI)
qed

lemma default_rows:
  "map category_fields
     (map (\<lambda>(i, c). expense_row mid i c)
        (zip [n ..< n + length (map default_category DEFAULT_CATEGORIES)]
           (map default_category DEFAULT_CATEGORIES))) =
   [(''Rent'', 0, 0, False, True), (''Groceries'', 0, 0, False, False),
    (''Car Insurance'', 0, 0, False, True), (''Clothes'', 0, 0, False, False),
    (''Other'', 0, 0, False, False)]"
proof -
  have "map category_fields
     (map (\<lambda>(i, c). expense_row mid i c)
        (zip [n ..< n + length (map default_category DEFAULT_CATEGORIES)]
           (map default_category DEFAULT_CATEGORIES))) =
     map (\<lambda>c. (cd_name c, cd_budgeted c, cd_actual c, cd_isPaid c, cd_showPaidStatus c))
       (map default_category DEFAULT_CATEGORIES)"
    by (rule rows_field) (simp add: category_fields_def expense_row_def)
  then show ?thesis
    by (simp add: DEFAULT_CATEGORIES_def default_category_def)
qed

text \<open>
  Claim C5. On the first read of a well-formed month key that is not in the ledger, when no
  month with a strictly smaller key is stored, or the nearest earlier month has no expense
  category, the created month has exactly the categories Rent, Groceries, Car Insurance,
  Clothes and Other, in this order, each with budgeted 0, actual 0 and isPaid false, and
  showPaidStatus true for Rent and Car Insurance only; it has no income source.
\<close>
theorem get_month_default_categories:
  assumes f: "month_format M"
    and u: "unique_months db"
    and a: "M \<notin> set (map md_month (months db))"
    and n: "(\<forall>r\<in>set (months db). \<not> md_month r < M) \<or>
            (\<exists>P. nearest_earlier db M P \<and> expenseCategories P = [])"
  shows "\<exists>row db'. get_month db M = (Json row, db') \<and>
           months db' = months db @ [row] \<and>
           md_month row = M \<and>
           map category_fields (expenseCategories row) =
             [(''Rent'', 0, 0, False, True), (''Groceries'', 0, 0, False, False),
              (''Car Insurance'', 0, 0, False, True), (''Clothes'', 0, 0, False, False),
              (''Other'', 0, 0, False, False)] \<and>
           incomeSources row = []"
proof -
  have "findFirst_lt db M = None \<or> (\<exists>p. findFirst_lt db M = Some p \<and> expenseCategories p = [])"
    using n findFirst_lt_none[of db M] findFirst_lt_nearest[OF u] by blast
  then have prev: "categoriesToClone (findFirst_lt db M) = map default_category DEFAULT_CATEGORIES"
    by (rule categoriesToClone_default)
  define row where "row = \<lparr>md_id = nextMonthId db, md_month = M, incomeSources = [],
      expenseCategories =
        map (\<lambda>(i, c). expense_row (nextMonthId db) i c)
          (zip [nextExpenseId db ..<
                  nextExpenseId db + length (map default_category DEFAULT_CATEGORIES)]
             (map default_category DEFAULT_CATEGORIES))\<rparr>"
  have g: "get_month db M =
           (Json row, db\<lparr>months := months db @ [row], nextMonthId := nextMonthId db + 1,
              nextExpenseId := nextExpenseId db + length (map default_category DEFAULT_CATEGORIES)\<rparr>)"
    using get_month_creates[OF f a] unfolding prev Let_def row_def .
  have m: "md_month row = M" and i: "incomeSources row = []" by (simp_all add: row_def)
  have c: "map category_fields (expenseCategories row) =
             [(''Rent'', 0, 0, False, True), (''Groceries'', 0, 0, False, False),
              (''Car Insurance'', 0, 0, False, True), (''Clothes'', 0, 0, False, False),
              (''Other'', 0, 0, False, False)]"
    unfolding row_def using default_rows[of "nextMonthId db" "nextExpenseId db"] by simp
  show ?thesis
    using g m i c by simp
qed

text \<open>
  The first month of an empty ledger, and a month after one that has no category.
\<close>

theorem get_month_default_categories_witness:
  "month_format ''2025-01'' \<and> months empty_ledger = [] \<and>
   (\<exists>row db'. get_month empty_ledger ''2025-01'' = (Json row, db') \<and>
      months db' = [row] \<and> md_month row = ''2025-01'' \<and>
      map category_fields (expenseCategories row) =
        [(''Rent'', 0, 0, False, True), (''Groceries'', 0, 0, False, False),
         (''Car Insurance'', 0, 0, False, True), (''Clothes'', 0, 0, False, False),
         (''Other'', 0, 0, False, False)] \<and>
      incomeSources row = []) \<and>
   month_format ''2025-02'' \<and> months bare_ledger = [bare_jan] \<and>
   nearest_earlier bare_ledger ''2025-02'' bare_jan \<and> expenseCategories bare_jan = [] \<and>
   (\<exists>row db'. get_month bare_ledger ''2025-02'' = (Json row, db') \<and>
      months db' = [bare_jan, row] \<and> md_month row = ''2025-02'' \<and>
      map category_fields (expenseCategories row) =
        [(''Rent'', 0, 0, False, True), (''Groceries'', 0, 0, False, False),
         (''Car Insurance'', 0, 0, False, True), (''Clothes'', 0, 0, False, False),
         (''Other'', 0, 0, False, False)] \<and>
      incomeSources row = [])"
proof -
  have e: "months empty_ledger = []" by (simp add: empty_ledger_def)
  have eu: "unique_months empty_ledger" by (simp add: unique_months_def e)
  have ea: "''2025-01'' \<notin> set (map md_month (months empty_ledger))" by (simp add: e)
  have en: "(\<forall>r\<in>set (months empty_ledger). \<not> md_month r < ''2025-01'') \<or>
            (\<exists>P. nearest_earlier empty_ledger ''2025-01'' P \<and> expenseCategories P = [])"
    by (simp add: e)
  have b: "months bare_ledger = [bare_jan]" by (simp add: bare_ledger_def)
  have bu: "unique_months bare_ledger" by (simp add: unique_months_def b)
  have ba: "''2025-02'' \<notin> set (map md_month (months bare_ledger))"
    by (simp add: b bare_jan_def)
  have bn: "nearest_earlier bare_ledger ''2025-02'' bare_jan"
    by (simp add: nearest_earlier_def b bare_jan_def)
  have bc: "expenseCategories bare_jan = []" by (simp add: bare_jan_def)
  have bn': "(\<forall>r\<in>set (months bare_ledger). \<not> md_month r < ''2025-02'') \<or>
            (\<exists>P. nearest_earlier bare_ledger ''2025-02'' P \<and> expenseCategories P = [])"
    using bn bc by (intro disjI2 exI[of _ bare_jan] conjI)
  note w1 = get_month_default_categories[OF month_format_examples(1) eu ea en, unfolded e append_Nil]
  note w2 = get_month_default_categories[OF month_format_examples(2) bu ba bn', unfolded b append_Cons append_Nil]
  show ?thesis
    using month_format_examples(1,2) e b bn bc w1 w2 by (intro conjI)
qed

text \<open>
  Claim C6. For every string that does not match \<open>^\d{4}-\d{2}$\<close> the get-or-create
  handler answers 400 with the validation error and returns the ledger as it was: no month
  and no child row is created.
\<close>
theorem get_month_rejects_malformed_key:
  "\<not> month_format M \<Longrightarrow>
   get_month db M = (Failure 400 ''Invalid month format. Use YYYY-MM'', db) \<and>
   status (fst (get_month db M)) = 400 \<and> snd (get_month db M) = db"
  by (simp add: get_month_def)

text \<open>
  Three keys that do not match, on the example ledger.
\<close>

theorem get_month_rejects_malformed_key_witness:
  "\<not> month_format ''2025-1'' \<and> \<not> month_format ''2025/01'' \<and> \<not> month_format ''2025-01-01'' \<and>
   get_month spec_ledger ''2025-1'' = (Failure 400 ''Invalid month format. Use YYYY-MM'', spec_ledger) \<and>
   get_month spec_ledger ''2025/01'' = (Failure 400 ''Invalid month format. Use YYYY-MM'', spec_ledger) \<and>
   get_month spec_ledger ''2025-01-01'' = (Failure 400 ''Invalid month format. Use YYYY-MM'', spec_ledger)"
proof -
  have 1: "\<not> month_format ''2025-1''" by (simp add: month_format_def)
  have 2: "\<not> month_format ''2025/01''" by (simp add: month_format_def)
  have 3: "\<not> month_format ''2025-01-01''" by (simp add: month_format_def)
  show ?thesis
    using 1 2 3 get_month_rejects_malformed_key[OF 1, of spec_ledger]
      get_month_rejects_malformed_key[OF 2, of spec_ledger]
      get_month_rejects_malformed_key[OF 3, of spec_ledger]
    by (intro conjI) (elim conjE, assumption)+
qed

lemma find_map_key:
  assumes "\<And>r. k (f r) = k r"
  shows "find (\<lambda>r. k r = m) (map f xs) = map_option f (find (\<lambda>r. k r = m) xs)"
  using assms by (induction xs) simp_all

lemma column_10_2_zero: "column_10_2 0 = Some 0"
  by code_simp

text \<open>An amount with two fractional digits and at most eight integer digits is stored as it is.\<close>

lemma column_10_2_stored:
  "column_10_2 (of_int k / 100) = (if \<bar>k\<bar> < 10 ^ 10 then Some (of_int k / 100) else None)"
proof -
  have r: "round_half_away (of_int k) = k"
    by (simp add: round_half_away_def) linarith
  have "\<bar>(of_int k :: rat) / 100\<bar> < 10 ^ 8 \<longleftrightarrow> \<bar>k\<bar> < 10 ^ 10"
  proof -
    have "\<bar>(of_int k :: rat) / 100\<bar> < 10 ^ 8 \<longleftrightarrow> \<bar>of_int k :: rat\<bar> < of_int (10 ^ 10)"
      by (simp add: abs_divide divide_less_eq)
    also have "\<dots> \<longleftrightarrow> \<bar>k\<bar> < 10 ^ 10"
      by (simp only: of_int_abs[symmetric] of_int_less_iff)
    finally show ?thesis .
  qed
  then show ?thesis
    by (simp add: column_10_2_def r Let_def)
qed

text \<open>The stored amount is the request's amount up to half a cent.\<close>

lemma round_half_away_near: "\<bar>of_int (round_half_away x) - x\<bar> \<le> 1 / 2"
proof (cases "0 \<le> x")
  case True
  have "of_int \<lfloor>x + 1 / 2\<rfloor> - x \<le> 1 / 2" "x - of_int \<lfloor>x + 1 / 2\<rfloor> \<le> 1 / 2"
    by linarith+
  then have "\<bar>of_int \<lfloor>x + 1 / 2\<rfloor> - x\<bar> \<le> 1 / 2" by (simp only: abs_le_iff) simp
  then show ?thesis using True by (simp only: round_half_away_def if_True)
next
  case False
  define y where "y = - x"
  have "of_int \<lfloor>y + 1 / 2\<rfloor> - y \<le> 1 / 2" "y - of_int \<lfloor>y + 1 / 2\<rfloor> \<le> 1 / 2"
    by linarith+
  then have "\<bar>of_int (- \<lfloor>y + 1 / 2\<rfloor>) - (- y)\<bar> \<le> 1 / 2" by (simp only: abs_le_iff) simp
  then show ?thesis using False by (simp only: round_half_away_def if_False y_def minus_minus)
qed

lemma column_10_2_near:
  assumes "column_10_2 d = Some r"
  shows "\<bar>r - d\<bar> \<le> 1 / 200 \<and> \<bar>r\<bar> < 10 ^ 8"
proof -
  have r: "r = of_int (round_half_away (d * 100)) / 100" and b: "\<bar>r\<bar> < 10 ^ 8"
    using assms by (auto simp: column_10_2_def Let_def split: if_splits)
  have "r - d = (of_int (round_half_away (d * 100)) - d * 100) / 100"
    by (simp add: r field_simps)
  then have "\<bar>r - d\<bar> = \<bar>of_int (round_half_away (d * 100)) - d * 100\<bar> / 100"
    by (simp only: abs_divide)
  also have "\<dots> \<le> (1 / 2) / 100"
    using round_half_away_near[of "d * 100"] by (simp only: divide_le_cancel) simp
  finally show ?thesis using b by simp
qed

text \<open>
  Claim C10. A POST of an expense category to a stored month, with a \<open>budgeted\<close> field
  that is missing or denotes a number the DECIMAL(10,2) column accepts, creates one row in
  that month: its name is the request's name or \<open>New Category\<close>, its budgeted is the
  request's amount (0 when missing) as the column stores it, and its actual is 0, isPaid
  false and showPaidStatus false whatever else the body holds. Every row the handler answers
  with has this form, and an answer that is an error leaves the months as they were.
\<close>

theorem post_expense_created_row:
  "(findUnique db M = Some md \<and> decimal_or_zero (b_budgeted body) = Some b \<and>
    column_10_2 b = Some stored \<longrightarrow>
      (\<exists>db'. post_expense db M body =
         (Json \<lparr>exp_id = nextExpenseId db,
                exp_name = string_or (b_name body) ''New Category'',
                exp_budgeted = stored, exp_actual = 0, exp_isPaid = False,
                exp_showPaidStatus = False, exp_monthlyDataId = md_id md\<rparr>, db') \<and>
         map md_month (months db') = map md_month (months db) \<and>
         map_option expenseCategories (findUnique db' M) =
           Some (expenseCategories md @
             [\<lparr>exp_id = nextExpenseId db,
               exp_name = string_or (b_name body) ''New Category'',
               exp_budgeted = stored, exp_actual = 0, exp_isPaid = False,
               exp_showPaidStatus = False, exp_monthlyDataId = md_id md\<rparr>]))) \<and>
   (\<forall>e db'. post_expense db M body = (Json e, db') \<longrightarrow>
      exp_actual e = 0 \<and> \<not> exp_isPaid e \<and> \<not> exp_showPaidStatus e \<and>
      exp_name e = string_or (b_name body) ''New Category'' \<and>
      (\<exists>b. decimal_or_zero (b_budgeted body) = Some b \<and>
           column_10_2 b = Some (exp_budgeted e))) \<and>
   (\<forall>c msg db'. post_expense db M body = (Failure c msg, db') \<longrightarrow> months db' = months db)"
proof (rule conjI[OF impI conjI[OF allI[OF allI[OF impI]] allI[OF allI[OF allI[OF impI]]]]])
  assume h: "findUnique db M = Some md \<and> decimal_or_zero (b_budgeted body) = Some b \<and>
    column_10_2 b = Some stored"
  let ?row = "\<lparr>exp_id = nextExpenseId db,
                exp_name = string_or (b_name body) ''New Category'',
                exp_budgeted = stored, exp_actual = 0, exp_isPaid = False,
                exp_showPaidStatus = False, exp_monthlyDataId = md_id md\<rparr>"
  let ?upd = "\<lambda>r. if md_id r = md_id md
                   then r\<lparr>expenseCategories := expenseCategories r @ [?row]\<rparr> else r"
  let ?db' = "db\<lparr>months := map ?upd (months db), nextExpenseId := nextExpenseId db + 1\<rparr>"
  have p: "post_expense db M body = (Json ?row, ?db')"
    using h
    by (simp add: post_expense_def create_expense_def expense_row_def column_10_2_zero Let_def)
  have k: "map md_month (months ?db') = map md_month (months db)"
    by (simp add: comp_def)
  have "findUnique ?db' M = map_option ?upd (findUnique db M)"
    unfolding findUnique_def by (simp add: find_map_key[of md_month ?upd])
  then have s: "map_option expenseCategories (findUnique ?db' M) = Some (expenseCategories md @ [?row])"
    using h by simp
  show "\<exists>db'. post_expense db M body = (Json ?row, db') \<and>
         map md_month (months db') = map md_month (months db) \<and>
         map_option expenseCategories (findUnique db' M) = Some (expenseCategories md @ [?row])"
    using p k s by (intro exI[of _ ?db'] conjI)
next
  fix e db'
  assume "post_expense db M body = (Json e, db')"
  then show "exp_actual e = 0 \<and> \<not> exp_isPaid e \<and> \<not> exp_showPaidStatus e \<and>
      exp_name e = string_or (b_name body) ''New Category'' \<and>
      (\<exists>b. decimal_or_zero (b_budgeted body) = Some b \<and>
           column_10_2 b = Some (exp_budgeted e))"
    by (auto simp: post_expense_def create_expense_def expense_row_def column_10_2_zero Let_def
          split: option.splits)
next
  fix c msg db'
  assume "post_expense db M body = (Failure c msg, db')"
  then show "months db' = months db"
    by (auto simp: post_expense_def split: option.splits)
qed

text \<open>
  Both example bodies, posted to January of the example ledger: the budget 45.678 is stored
  as 45.68.
\<close>

theorem post_expense_created_row_witness:
  "findUnique spec_ledger ''2025-01'' = Some spec_jan \<and>
   decimal_or_zero (b_budgeted body_all_set) = Some 0 \<and> column_10_2 0 = Some 0 \<and>
   (\<exists>db'. post_expense spec_ledger ''2025-01'' body_all_set =
      (Json \<lparr>exp_id = 3, exp_name = ''New Category'', exp_budgeted = 0, exp_actual = 0,
             exp_isPaid = False, exp_showPaidStatus = False, exp_monthlyDataId = 1\<rparr>, db') \<and>
      map md_month (months db') = [''2025-01''] \<and>
      map_option (map category_fields \<circ> expenseCategories) (findUnique db' ''2025-01'') =
        Some [(''Rent'', 1200, 1200, True, True), (''Groceries'', 400, 380, False, False),
              (''New Category'', 0, 0, False, False)]) \<and>
   decimal_or_zero (b_budgeted body_named) = Some (45678 / 1000) \<and>
   column_10_2 (45678 / 1000) = Some (4568 / 100) \<and>
   (\<exists>db'. post_expense spec_ledger ''2025-01'' body_named =
      (Json \<lparr>exp_id = 3, exp_name = ''Gym'', exp_budgeted = 4568 / 100, exp_actual = 0,
             exp_isPaid = False, exp_showPaidStatus = False, exp_monthlyDataId = 1\<rparr>, db'))"
proof -
  have f: "findUnique spec_ledger ''2025-01'' = Some spec_jan"
    by (simp add: findUnique_def spec_ledger_def spec_jan_def)
  have d1: "decimal_or_zero (b_budgeted body_all_set) = Some 0" by (simp add: body_all_set_def)
  have d2: "decimal_or_zero (b_budgeted body_named) = Some (45678 / 1000)"
    by (simp add: body_named_def)
  have c1: "column_10_2 0 = Some 0" by (rule column_10_2_zero)
  have c2: "column_10_2 (45678 / 1000) = Some (4568 / 100)" by code_simp
  have v: "nextExpenseId spec_ledger = 3" "md_id spec_jan = 1"
      "string_or (b_name body_all_set) ''New Category'' = ''New Category''"
      "string_or (b_name body_named) ''New Category'' = ''Gym''"
      "map md_month (months spec_ledger) = [''2025-01'']"
    by (simp_all add: spec_ledger_def spec_jan_def body_all_set_def body_named_def)
  have cs: "map category_fields (expenseCategories spec_jan) =
     [(''Rent'', 1200, 1200, True, True), (''Groceries'', 400, 380, False, False)]"
    by (simp add: spec_jan_def category_fields_def)
  from post_expense_created_row[of spec_ledger "''2025-01''" spec_jan body_all_set 0 0] f d1 c1
  obtain db1 where a1: "post_expense spec_ledger ''2025-01'' body_all_set =
      (Json \<lparr>exp_id = 3, exp_name = ''New Category'', exp_budgeted = 0, exp_actual = 0,
             exp_isPaid = False, exp_showPaidStatus = False, exp_monthlyDataId = 1\<rparr>, db1)"
    and a2: "map md_month (months db1) = [''2025-01'']"
    and a3: "map_option expenseCategories (findUnique db1 ''2025-01'') =
           Some (expenseCategories spec_jan @
             [\<lparr>exp_id = 3, exp_name = ''New Category'', exp_budgeted = 0, exp_actual = 0,
               exp_isPaid = False, exp_showPaidStatus = False, exp_monthlyDataId = 1\<rparr>])"
    unfolding v by (elim conjE impE exE) (intro conjI, assumption+)
  have a4: "map_option (map category_fields \<circ> expenseCategories) (findUnique db1 ''2025-01'') =
        Some [(''Rent'', 1200, 1200, True, True), (''Groceries'', 400, 380, False, False),
              (''New Category'', 0, 0, False, False)]"
    using a3 cs by (cases "findUnique db1 ''2025-01''") (auto simp: category_fields_def)
  from post_expense_created_row[of spec_ledger "''2025-01''" spec_jan body_named
      "45678 / 1000" "4568 / 100"] f d2 c2
  obtain db2 where b1: "post_expense spec_ledger ''2025-01'' body_named =
      (Json \<lparr>exp_id = 3, exp_name = ''Gym'', exp_budgeted = 4568 / 100, exp_actual = 0,
             exp_isPaid = False, exp_showPaidStatus = False, exp_monthlyDataId = 1\<rparr>, db2)"
    unfolding v by (elim conjE impE exE) (intro conjI, assumption+)
  show ?thesis
    using f d1 d2 c1 c2 a1 a2 a4 b1 by (intro conjI exI[of _ db1] exI[of _ db2])
qed

text \<open>
  A budget of 123456789 does not fit the column: the insert is refused, the handler answers
  500 and the ledger is as before.
\<close>

lemma post_expense_overflow:
  "post_expense spec_ledger ''2025-01'' body_overflow =
     (Failure 500 ''Failed to add expense'', spec_ledger)"
proof -
  have f: "findUnique spec_ledger ''2025-01'' = Some spec_jan"
    by (simp add: findUnique_def spec_ledger_def spec_jan_def)
  have c: "column_10_2 123456789 = None" by code_simp
  show ?thesis
    by (simp add: post_expense_def f body_overflow_def create_expense_def c)
qed

section \<open>Properties of the authentication handlers\<close>

text \<open>
  Claim C7, as amended. For every pair of login requests that both carry a non-empty
  username and a non-empty password, one with a username no user has and one with a stored
  username and a password the comparison rejects, both answers are 401 with the body
  \<open>Invalid credentials\<close>, and the session is left as it was.
\<close>
theorem login_failures_indistinguishable:
  assumes "truthy (lb_username a)" and "truthy (lb_password a)"
    and "truthy (lb_username b)" and "truthy (lb_password b)"
    and "findUser_username us (String (lb_username a)) = None"
    and "findUser_username us (String (lb_username b)) = Some u"
    and "\<not> compare (String (lb_password b)) (password u)"
  shows "post_login compare us sess a = (Failure 401 ''Invalid credentials'', sess) \<and>
         post_login compare us sess b = (Failure 401 ''Invalid credentials'', sess) \<and>
         status (fst (post_login compare us sess a)) = 401 \<and>
         fst (post_login compare us sess a) = fst (post_login compare us sess b)"
  using assms by (simp add: post_login_def)

text \<open>
  An unknown name and a wrong password for a known name, with the same answer.
\<close>

theorem login_failures_indistinguishable_witness:
  "findUser_username ex_users ''nobody'' = None \<and>
   findUser_username ex_users ''owner'' = Some ex_owner \<and>
   \<not> ex_compare ''guess'' (password ex_owner) \<and>
   post_login ex_compare ex_users anonymous \<lparr>lb_username = Some ''nobody'', lb_password = Some ''guess''\<rparr>
     = (Failure 401 ''Invalid credentials'', anonymous) \<and>
   post_login ex_compare ex_users anonymous \<lparr>lb_username = Some ''owner'', lb_password = Some ''guess''\<rparr>
     = (Failure 401 ''Invalid credentials'', anonymous)"
proof -
  have 1: "findUser_username ex_users ''nobody'' = None"
    by (simp add: findUser_username_def ex_users_def ex_owner_def ex_guest_def)
  have 2: "findUser_username ex_users ''owner'' = Some ex_owner"
    by (simp add: findUser_username_def ex_users_def ex_owner_def ex_guest_def)
  have 3: "\<not> ex_compare ''guess'' (password ex_owner)"
    by (simp add: ex_compare_def ex_owner_def)
  have w: "post_login ex_compare ex_users anonymous \<lparr>lb_username = Some ''nobody'', lb_password = Some ''guess''\<rparr>
     = (Failure 401 ''Invalid credentials'', anonymous) \<and>
   post_login ex_compare ex_users anonymous \<lparr>lb_username = Some ''owner'', lb_password = Some ''guess''\<rparr>
     = (Failure 401 ''Invalid credentials'', anonymous)"
    using login_failures_indistinguishable[of
        "\<lparr>lb_username = Some ''nobody'', lb_password = Some ''guess''\<rparr>"
        "\<lparr>lb_username = Some ''owner'', lb_password = Some ''guess''\<rparr>"
        ex_users ex_owner ex_compare anonymous] 1 2 3
    by simp
  show ?thesis using 1 2 3 w by (intro conjI) (elim conjE, assumption)+
qed

text \<open>
  Claim C7 as stated fails when a field is empty: the unknown username sent with an empty
  password is answered 400, the known username with a wrong password 401.
\<close>

theorem login_empty_password_counterexample:
  "findUser_username ex_users ''nobody'' = None \<and>
   findUser_username ex_users ''owner'' = Some ex_owner \<and>
   \<not> ex_compare ''guess'' (password ex_owner) \<and>
   post_login ex_compare ex_users anonymous \<lparr>lb_username = Some ''nobody'', lb_password = Some ''''\<rparr>
     = (Failure 400 ''Username and password required'', anonymous) \<and>
   post_login ex_compare ex_users anonymous \<lparr>lb_username = Some ''owner'', lb_password = Some ''guess''\<rparr>
     = (Failure 401 ''Invalid credentials'', anonymous)"
proof -
  have 1: "findUser_username ex_users ''nobody'' = None"
    by (simp add: findUser_username_def ex_users_def ex_owner_def ex_guest_def)
  have 2: "findUser_username ex_users ''owner'' = Some ex_owner"
    by (simp add: findUser_username_def ex_users_def ex_owner_def ex_guest_def)
  have 3: "\<not> ex_compare ''guess'' (password ex_owner)"
    by (simp add: ex_compare_def ex_owner_def)
  have 4: "post_login ex_compare ex_users anonymous \<lparr>lb_username = Some ''nobody'', lb_password = Some ''''\<rparr>
     = (Failure 400 ''Username and password required'', anonymous)"
    by (simp add: post_login_def)
  have 5: "post_login ex_compare ex_users anonymous \<lparr>lb_username = Some ''owner'', lb_password = Some ''guess''\<rparr>
     = (Failure 401 ''Invalid credentials'', anonymous)"
    using 2 3 by (simp add: post_login_def)
  show ?thesis using 1 2 3 4 5 by (intro conjI)
qed

text \<open>
  Claim C8, as amended. When an authenticated user who proves the current password asks for
  a new username that belongs to another user, the handler answers 400 with the body
  \<open>Username already taken\<close>; users and session are left as they were.
\<close>
theorem change_credentials_username_taken:
  assumes "session_user sess = Some uid"
    and "truthy (currentPassword body)"
    and "findUser_id us uid = Some user"
    and "compare (String (currentPassword body)) (password user)"
    and "truthy (newUsername body)"
    and "findUser_username us (String (newUsername body)) = Some other"
    and "user_id other \<noteq> user_id user"
  shows "post_change_credentials compare hash us sess body =
           (Failure 400 ''Username already taken'', us, sess)"
  using assms by (simp add: post_change_credentials_def)

text \<open>
  The guest asks for the name of the owner.
\<close>

theorem change_credentials_username_taken_witness:
  "session_user guest_session = Some 2 \<and>
   findUser_id ex_users 2 = Some ex_guest \<and>
   ex_compare ''welcome'' (password ex_guest) \<and>
   findUser_username ex_users ''owner'' = Some ex_owner \<and>
   user_id ex_owner \<noteq> user_id ex_guest \<and>
   post_change_credentials ex_compare ex_hash ex_users guest_session
       \<lparr>currentPassword = Some ''welcome'', newUsername = Some ''owner'',
        newPassword = Some ''longer-password''\<rparr> =
     (Failure 400 ''Username already taken'', ex_users, guest_session)"
proof -
  have 1: "session_user guest_session = Some 2"
    by (simp add: session_user_def guest_session_def)
  have 2: "findUser_id ex_users 2 = Some ex_guest"
    by (simp add: findUser_id_def ex_users_def ex_owner_def ex_guest_def)
  have 3: "ex_compare ''welcome'' (password ex_guest)"
    by (simp add: ex_compare_def ex_guest_def)
  have 4: "findUser_username ex_users ''owner'' = Some ex_owner"
    by (simp add: findUser_username_def ex_users_def ex_owner_def ex_guest_def)
  have 5: "user_id ex_owner \<noteq> user_id ex_guest" by (simp add: ex_owner_def ex_guest_def)
  have 6: "post_change_credentials ex_compare ex_hash ex_users guest_session
       \<lparr>currentPassword = Some ''welcome'', newUsername = Some ''owner'',
        newPassword = Some ''longer-password''\<rparr> =
     (Failure 400 ''Username already taken'', ex_users, guest_session)"
    using change_credentials_username_taken[of guest_session 2
        "\<lparr>currentPassword = Some ''welcome'', newUsername = Some ''owner'',
          newPassword = Some ''longer-password''\<rparr>" ex_users ex_guest ex_compare ex_owner ex_hash]
      1 2 3 4 5 by simp
  show ?thesis using 1 2 3 4 5 6 by (intro conjI)
qed

text \<open>
  Claim C8 as stated fails: the conflict is answered 400, not 500.
\<close>

theorem change_credentials_conflict_counterexample:
  "findUser_username ex_users ''guest'' = Some ex_guest \<and>
   post_change_credentials ex_compare ex_hash ex_users owner_session
       \<lparr>currentPassword = Some ''secret1'', newUsername = Some ''guest'', newPassword = None\<rparr> =
     (Failure 400 ''Username already taken'', ex_users, owner_session) \<and>
   status (fst (post_change_credentials ex_compare ex_hash ex_users owner_session
       \<lparr>currentPassword = Some ''secret1'', newUsername = Some ''guest'', newPassword = None\<rparr>))
     \<noteq> 500"
proof -
  have 1: "findUser_username ex_users ''guest'' = Some ex_guest"
    by (simp add: findUser_username_def ex_users_def ex_owner_def ex_guest_def)
  have 2: "findUser_id ex_users 1 = Some ex_owner"
    by (simp add: findUser_id_def ex_users_def ex_owner_def ex_guest_def)
  have 3: "session_user owner_session = Some 1"
    by (simp add: session_user_def owner_session_def)
  have 4: "post_change_credentials ex_compare ex_hash ex_users owner_session
       \<lparr>currentPassword = Some ''secret1'', newUsername = Some ''guest'', newPassword = None\<rparr> =
     (Failure 400 ''Username already taken'', ex_users, owner_session)"
    by (simp add: post_change_credentials_def 1 2[unfolded One_nat_def] 3)
      (simp add: ex_compare_def ex_owner_def ex_guest_def)
  show ?thesis unfolding 4 using 1 by simp
qed

lemma find_Some_set: "find P xs = Some x \<Longrightarrow> x \<in> set xs \<and> P x"
  by (induction xs) (auto split: if_splits)

lemma findUser_id_self:
  "findUser_id us uid = Some user \<Longrightarrow> findUser_id us (user_id user) = Some user \<and> user \<in> set us"
  using find_Some_set[of "\<lambda>u. user_id u = uid" us user] by (auto simp: findUser_id_def)

lemma update_user_succeeds:
  assumes d: "distinct (map username us)"
    and f: "findUser_id us (user_id user) = Some user" and uin: "user \<in> set us"
    and nm: "case nm of None \<Rightarrow> True
             | Some n \<Rightarrow> (case findUser_username us n of None \<Rightarrow> True
                          | Some e \<Rightarrow> user_id e = user_id user)"
  shows "\<exists>u' us'. update_user us (user_id user) nm hs = Some (u', us')"
proof -
  have inj: "inj_on username (set us)" using d by (simp add: distinct_map)
  have "\<not> (\<exists>v\<in>set us. user_id v \<noteq> user_id user \<and>
             username v = (case nm of None \<Rightarrow> username user | Some n \<Rightarrow> n))"
  proof
    assume "\<exists>v\<in>set us. user_id v \<noteq> user_id user \<and>
             username v = (case nm of None \<Rightarrow> username user | Some n \<Rightarrow> n)"
    then obtain v where v: "v \<in> set us" "user_id v \<noteq> user_id user"
      "username v = (case nm of None \<Rightarrow> username user | Some n \<Rightarrow> n)" by blast
    show False
    proof (cases nm)
      case None
      then have "username v = username user" using v(3) by simp
      then have "v = user" using inj v(1) uin by (auto dest: inj_onD)
      then show False using v(2) by simp
    next
      case (Some n)
      then have vn: "username v = n" using v(3) by simp
      then have "find (\<lambda>u. username u = n) us \<noteq> None"
        using v(1) by (auto simp: find_None_iff)
      then obtain e where e: "findUser_username us n = Some e"
        by (auto simp: findUser_username_def)
      then have ein: "e \<in> set us" and en: "username e = n"
        using find_Some_set[OF e[unfolded findUser_username_def]] by simp_all
      have "user_id e = user_id user" using nm Some e by simp
      moreover have "v = e" using inj v(1) ein vn en by (auto dest: inj_onD)
      ultimately show False using v(2) by simp
    qed
  qed
  then show ?thesis
    using f by (simp add: update_user_def Let_def list_ex_iff)
qed

text \<open>
  With unique usernames the update that follows the check cannot be refused, so the handler
  never answers 500.
\<close>

lemma change_credentials_never_500:
  assumes d: "distinct (map username us)"
  shows "status (fst (post_change_credentials compare hash us sess body)) \<noteq> 500"
proof (cases "session_user sess")
  case None
  then show ?thesis by (simp add: post_change_credentials_def)
next
  case (Some uid)
  show ?thesis
  proof (cases "findUser_id us uid")
    case None
    then show ?thesis using Some by (simp add: post_change_credentials_def)
  next
    case (Some user)
    note self = findUser_id_self[OF Some]
    let ?nm = "if truthy (newUsername body) then Some (String (newUsername body)) else None"
    let ?hs = "if truthy (newPassword body) then Some (hash (String (newPassword body))) else None"
    show ?thesis
    proof (cases "truthy (newUsername body) \<and>
        (case findUser_username us (String (newUsername body)) of None \<Rightarrow> False
         | Some e \<Rightarrow> user_id e \<noteq> user_id user)")
      case True
      then show ?thesis
        using \<open>session_user sess = Some uid\<close> Some
        by (simp add: post_change_credentials_def Let_def)
    next
      case False
      then have "case ?nm of None \<Rightarrow> True
             | Some n \<Rightarrow> (case findUser_username us n of None \<Rightarrow> True
                          | Some e \<Rightarrow> user_id e = user_id user)"
        by (auto split: option.splits)
      from update_user_succeeds[OF d conjunct1[OF self] conjunct2[OF self] this, of ?hs]
      obtain u' us' where "update_user us (user_id user) ?nm ?hs = Some (u', us')" by blast
      then show ?thesis
        using \<open>session_user sess = Some uid\<close> Some False
        by (auto simp: post_change_credentials_def Let_def split: if_splits)
    qed
  qed
qed

end
